theory Spec2Isabelle
  imports Complex_Main "HOL-Library.AList"
begin

section \<open>Area operations on data cubes (esmvaltool/preprocessor/_area.py)\<close>

subsection \<open>Coordinate points\<close>

text \<open>
  A point of a coordinate is a number or, for a categorical coordinate such as \<open>region\<close>,
  a string.
\<close>

datatype cell = Num real | Str string

subsection \<open>Exceptions\<close>

text \<open>
  One constructor for each exception the module raises itself, named after the Python
  exception type and the raise site, and one for each exception of numpy and iris that
  the modelled calls can raise.
\<close>

datatype error =
    ValueError_operator "string" "string list"
      \<comment> \<open>\<open>get_iris_analysis_operation\<close>: the lowered operator and the list \<open>operators\<close>\<close>
  | ValueError_shape "nat list" "nat list"
      \<comment> \<open>\<open>average_region\<close>: cube shape and grid area shape\<close>
  | CoordinateMultiDimError "string"
      \<comment> \<open>\<open>average_region\<close> (irregular grid without fx files); iris constraints\<close>
  | ValueError_regions_format
      \<comment> \<open>\<open>extract_named_regions\<close>: regions is no str, list, tuple or set\<close>
  | ValueError_regions "string set" "cell set"
      \<comment> \<open>\<open>extract_named_regions\<close>: invalid regions and available regions\<close>
  | CoordinateNotFoundError "string"
      \<comment> \<open>iris: \<open>cube.coord(name)\<close> with no such coordinate\<close>
  | IndexError_shape "nat list" "nat list"
      \<comment> \<open>numpy: \<open>masked_where\<close> with a condition whose shape is not the array's\<close>
  | ValueError_broadcast "nat list" "nat list"
      \<comment> \<open>numpy: in-place addition whose operand does not broadcast to the target\<close>
  | TypeError
      \<comment> \<open>numpy: ordering comparison of a string array with a float\<close>
  | LibraryError "string"
      \<comment> \<open>any other exception raised inside an iris call\<close>

subsection \<open>Operator resolver\<close>

datatype operation = MEAN | MEDIAN | STD_DEV | VARIANCE | MIN_op | MAX_op

text \<open>
  \<open>str.lower\<close> on the characters of a \<open>string\<close>: an ASCII capital is moved to its small
  letter, every other character is kept. (No character outside ASCII is lowered by Python
  to one of the letters of the operator names, so the comparison below is decided as in
  Python.)
\<close>

definition lower_char :: "char \<Rightarrow> char" where
  "lower_char c =
     (let n = (of_char c :: nat) in if 65 \<le> n \<and> n \<le> 90 then char_of (n + 32) else c)"

definition lower :: "string \<Rightarrow> string" where
  "lower s = map lower_char s"

definition operators :: "string list" where
  "operators = [''mean'', ''median'', ''stdev'', ''variance'', ''min'', ''minimum'',
                ''max'', ''maximum'']"

definition get_iris_analysis_operation :: "string \<Rightarrow> error + operation" where
  "get_iris_analysis_operation operator =
     (let operator = lower operator in
      if operator = ''mean'' then Inr MEAN
      else if operator = ''median'' then Inr MEDIAN
      else if operator = ''stdev'' then Inr STD_DEV
      else if operator = ''variance'' then Inr VARIANCE
      else if operator \<in> set [''minimum'', ''min''] then Inr MIN_op
      else if operator \<in> set [''maximum'', ''max''] then Inr MAX_op
      else Inl (ValueError_operator operator operators))"

subsection \<open>numpy arrays\<close>

text \<open>
  An array is its shape and its elements in row-major order. \<open>unravel\<close> turns a flat
  position into a multi-index, \<open>ravel\<close> goes back.
\<close>

fun unravel :: "nat list \<Rightarrow> nat \<Rightarrow> nat list" where
  "unravel [] i = []"
| "unravel (d # ds) i = (i div prod_list ds) # unravel ds (i mod prod_list ds)"

fun ravel :: "nat list \<Rightarrow> nat list \<Rightarrow> nat" where
  "ravel (d # ds) (j # js) = j * prod_list ds + ravel ds js"
| "ravel _ _ = 0"

text \<open>
  The mask of a masked array is either the constant \<open>nomask\<close> (numpy's \<open>np.False_\<close>, of
  shape \<open>()\<close>) or a boolean array of the shape of the data.
\<close>

datatype mask = nomask | MaskArr "nat list" "bool list"

record masked_array =
  shape :: "nat list"
  elements :: "real list"
  mask :: mask

definition ndim :: "masked_array \<Rightarrow> nat" where
  "ndim a = length (shape a)"

text \<open>\<open>np.ma.getmaskarray\<close>, read at one flat position: is the element masked?\<close>

definition masked_at :: "mask \<Rightarrow> nat \<Rightarrow> bool" where
  "masked_at m i = (case m of nomask \<Rightarrow> False | MaskArr s b \<Rightarrow> b ! i)"

text \<open>
  \<open>np.tile(A, reps)\<close>: the shorter of the shape and \<open>reps\<close> is padded with ones on the
  left, the result has the elementwise product as its shape, and the element at a
  multi-index is the element of \<open>A\<close> at that index modulo the shape of \<open>A\<close>.
\<close>

definition pad_left :: "nat \<Rightarrow> nat list \<Rightarrow> nat list" where
  "pad_left n s = replicate (n - length s) 1 @ s"

definition tile_shape :: "nat list \<Rightarrow> nat list \<Rightarrow> nat list" where
  "tile_shape s reps =
     (let n = max (length s) (length reps)
      in map2 (*) (pad_left n reps) (pad_left n s))"

definition tile_list :: "nat list \<Rightarrow> nat list \<Rightarrow> 'a list \<Rightarrow> 'a list" where
  "tile_list s reps xs =
     (let n = max (length s) (length reps); s' = pad_left n s; out = tile_shape s reps
      in map (\<lambda>i. xs ! ravel s' (map2 (\<lambda>j d. j mod d) (unravel out i) s'))
           [0 ..< prod_list out])"

definition tile :: "masked_array \<Rightarrow> nat list \<Rightarrow> masked_array" where
  "tile a reps =
     \<lparr> shape = tile_shape (shape a) reps,
       elements = tile_list (shape a) reps (elements a),
       mask = (case mask a of nomask \<Rightarrow> nomask
               | MaskArr s b \<Rightarrow> MaskArr (tile_shape s reps) (tile_list s reps b)) \<rparr>"

text \<open>
  Broadcasting an operand of shape \<open>sb\<close> to a target of shape \<open>sa\<close>, as an in-place
  operation needs it: the operand has no more axes than the target, and each of its axes,
  aligned from the right, has the target's length or length one.
\<close>

definition broadcastable :: "nat list \<Rightarrow> nat list \<Rightarrow> bool" where
  "broadcastable sb sa \<longleftrightarrow>
     length sb \<le> length sa \<and>
     list_all2 (\<lambda>b a. b = a \<or> b = 1) sb (drop (length sa - length sb) sa)"

text \<open>
  The flat position in the operand that is read for the flat position \<open>i\<close> of the target:
  the multi-index of \<open>i\<close> without its leading axes, and with \<open>0\<close> on the operand's
  axes of length one.
\<close>

definition broadcast_index :: "nat list \<Rightarrow> nat list \<Rightarrow> nat \<Rightarrow> nat" where
  "broadcast_index sb sa i =
     ravel sb (map2 (\<lambda>j d. if d = 1 then 0 else j)
                 (drop (length sa - length sb) (unravel sa i)) sb)"

definition broadcast_to :: "nat list \<Rightarrow> nat list \<Rightarrow> 'a list \<Rightarrow> 'a list" where
  "broadcast_to sb sa xs = map (\<lambda>i. xs ! broadcast_index sb sa i) [0 ..< prod_list sa]"

text \<open>
  \<open>mask += m\<close> on booleans (addition is disjunction). When the left operand is
  \<open>nomask\<close>, a scalar, Python rebinds the name to the sum, which has the shape of the
  right operand; when it is an array it is updated in place and keeps its shape.
\<close>

fun mask_iadd :: "mask \<Rightarrow> mask \<Rightarrow> error + mask" where
  "mask_iadd nomask m = Inr m"
| "mask_iadd (MaskArr s b) nomask = Inr (MaskArr s b)"
| "mask_iadd (MaskArr s b) (MaskArr s' b') =
     (if broadcastable s' s
      then Inr (MaskArr s (map2 (\<or>) b (broadcast_to s' s b')))
      else Inl (ValueError_broadcast s s'))"

text \<open>
  \<open>np.ma.masked_where(condition, a).mask\<close> for a plain array \<open>a\<close> of shape \<open>s\<close>: the
  condition itself, shrunk to \<open>nomask\<close> when it holds nowhere.
\<close>

definition condition_mask :: "nat list \<Rightarrow> bool list \<Rightarrow> mask" where
  "condition_mask s cond = (if True \<in> set cond then MaskArr s cond else nomask)"

text \<open>
  \<open>np.ma.masked_where(condition, a)\<close> for a masked array \<open>a\<close>: a condition with a
  shape must have the shape of \<open>a\<close> (numpy raises IndexError otherwise, it does not
  broadcast); the result is a copy of \<open>a\<close> whose mask is the union of the condition and
  the mask of \<open>a\<close>.
\<close>

definition masked_where :: "mask \<Rightarrow> masked_array \<Rightarrow> error + masked_array" where
  "masked_where condition a =
     (case condition of
        nomask \<Rightarrow> Inr a
      | MaskArr cshape cond \<Rightarrow>
          if cshape \<noteq> [] \<and> cshape \<noteq> shape a then Inl (IndexError_shape cshape (shape a))
          else Inr (a\<lparr>mask :=
                 (case mask a of
                    nomask \<Rightarrow> condition_mask (shape a) (broadcast_to cshape (shape a) cond)
                  | MaskArr s b \<Rightarrow>
                      MaskArr s (map2 (\<or>) (broadcast_to cshape s cond) b))\<rparr>))"

subsection \<open>Cubes and coordinates\<close>

text \<open>
  A coordinate has the shape of its points array (one axis on a regular grid,
  two on an irregular one), optional bounds (two per point, flat), and the data dimensions
  it spans (iris: \<open>cube.coord_dims(coord)\<close>), from which the order of the cube's axes is
  read.
\<close>

record coord =
  cshape :: "nat list"
  points :: "cell list"
  bounds :: "real list option"
  cdims :: "nat list"

definition has_bounds :: "coord \<Rightarrow> bool" where
  "has_bounds c \<longleftrightarrow> bounds c \<noteq> None"

text \<open>
  A cube is its data and its coordinates by name (the names are taken to be distinct, as
  \<open>cube.coord(name)\<close> needs them).
\<close>

record cube =
  data :: masked_array
  coords :: "(string \<times> coord) list"

text \<open>\<open>cube.coord(name)\<close>\<close>

definition cube_coord :: "cube \<Rightarrow> string \<Rightarrow> error + coord" where
  "cube_coord c name =
     (case map_of (coords c) name of
        None \<Rightarrow> Inl (CoordinateNotFoundError name)
      | Some x \<Rightarrow> Inr x)"

text \<open>
  What a call hands back: the caller's own cube object (whose state is the first
  component of the call's result), a new cube, or Python's \<open>None\<close>.
\<close>

datatype returned = Input | Fresh cube | NoneValue

text \<open>
  A call on a cube yields the state of the caller's cube after the call, and either the
  exception raised or what is returned.
\<close>

type_synonym outcome = "cube \<times> (error + returned)"

text \<open>
  The computations of iris whose code is not part of this module are parameters:
  \<open>intersection\<close> and \<open>collapsed\<close> (which build a new cube and leave the cube they are
  called on as it is), the file system behind \<open>iris.load_cube\<close>, and the numbers that
  iris works out once its own checks have passed: \<open>guessed\<close>, the bounds guessed from
  the points of a coordinate of one axis, and \<open>cell_areas\<close>, the areas of the cells of a
  regular grid.
\<close>

record iris =
  intersection :: "cube \<Rightarrow> (string \<times> real \<times> real) list \<Rightarrow> error + cube"
  collapsed :: "cube \<Rightarrow> string list \<Rightarrow> operation \<Rightarrow> masked_array option \<Rightarrow> error + cube"
  guessed :: "coord \<Rightarrow> error + real list"
  cell_areas :: "cube \<Rightarrow> error + masked_array"
  load_cube :: "string \<Rightarrow> error + cube"

text \<open>
  \<open>coord.guess_bounds()\<close> for the coordinate of that name: iris refuses a coordinate
  of more than one axis with CoordinateMultiDimError, and otherwise sets the bounds of the
  coordinate, whose points it leaves as they are.
\<close>

definition coord_guess_bounds :: "iris \<Rightarrow> string \<Rightarrow> coord \<Rightarrow> error + coord" where
  "coord_guess_bounds L name c =
     (if length (cshape c) \<noteq> 1 then Inl (CoordinateMultiDimError name)
      else (case guessed L c of
              Inl e \<Rightarrow> Inl e
            | Inr b \<Rightarrow> Inr (c\<lparr>bounds := Some b\<rparr>)))"

text \<open>
  \<open>iris.analysis.cartography.area_weights(cube)\<close>: iris takes the latitude and the
  longitude of the cube, refuses either with CoordinateMultiDimError when it has more than
  one axis, and then computes the areas.
\<close>

definition area_weights :: "iris \<Rightarrow> cube \<Rightarrow> error + masked_array" where
  "area_weights L cube =
     (case cube_coord cube ''latitude'' of
        Inl e \<Rightarrow> Inl (LibraryError ''area_weights'')
      | Inr lat \<Rightarrow>
          (case cube_coord cube ''longitude'' of
             Inl e \<Rightarrow> Inl (LibraryError ''area_weights'')
           | Inr lon \<Rightarrow>
               if length (cshape lat) > 1 then Inl (CoordinateMultiDimError ''latitude'')
               else if length (cshape lon) > 1 then Inl (CoordinateMultiDimError ''longitude'')
               else cell_areas L cube))"

subsection \<open>\<open>_guess_bounds\<close>\<close>

text \<open>The coordinates named are given guessed bounds in place, on the cube passed in.\<close>

fun guess_bounds :: "iris \<Rightarrow> cube \<Rightarrow> string list \<Rightarrow> cube \<times> (error + unit)" where
  "guess_bounds L cube [] = (cube, Inr ())"
| "guess_bounds L cube (name # names) =
     (case cube_coord cube name of
        Inl e \<Rightarrow> (cube, Inl e)
      | Inr c \<Rightarrow>
          if \<not> has_bounds c
          then (case coord_guess_bounds L name c of
                  Inl e \<Rightarrow> (cube, Inl e)
                | Inr c' \<Rightarrow> guess_bounds L (cube\<lparr>coords := AList.update name c' (coords cube)\<rparr>) names)
          else guess_bounds L cube names)"

subsection \<open>\<open>extract_region\<close>\<close>

text \<open>
  \<open>points < x\<close> and \<open>points > x\<close> on a points array: elementwise on numbers, TypeError
  on strings.
\<close>

fun compare :: "(real \<Rightarrow> bool) \<Rightarrow> cell list \<Rightarrow> error + bool list" where
  "compare p [] = Inr []"
| "compare p (Str s # cs) = Inl TypeError"
| "compare p (Num x # cs) =
     (case compare p cs of Inl e \<Rightarrow> Inl e | Inr bs \<Rightarrow> Inr (p x # bs))"

text \<open>\<open>np.ma.masked_where(points ? x, points).mask\<close>\<close>

definition where_mask :: "(real \<Rightarrow> bool) \<Rightarrow> coord \<Rightarrow> error + mask" where
  "where_mask p c =
     (case compare p (points c) of
        Inl e \<Rightarrow> Inl e
      | Inr cond \<Rightarrow> Inr (condition_mask (cshape c) cond))"

text \<open>
  The four statements \<open>mask += ...\<close>, in order. \<open>mask\<close> starts as the mask of
  \<open>cube.data\<close>: when that is an array, the name and the cube share it (\<open>shared\<close>), and
  each in-place addition is seen in the cube at once; when it is \<open>nomask\<close>, the name is
  rebound and the cube is not touched.
\<close>

fun accumulate :: "bool \<Rightarrow> cube \<Rightarrow> mask \<Rightarrow> (error + mask) list \<Rightarrow> cube \<times> (error + mask)" where
  "accumulate shared cube m [] = (cube, Inr m)"
| "accumulate shared cube m (Inl e # rest) = (cube, Inl e)"
| "accumulate shared cube m (Inr x # rest) =
     (case mask_iadd m x of
        Inl e \<Rightarrow> (cube, Inl e)
      | Inr m' \<Rightarrow>
          accumulate shared
            (if shared then cube\<lparr>data := (data cube)\<lparr>mask := m'\<rparr>\<rparr> else cube) m' rest)"

text \<open>
  The bounds are floats (the docstring's type), on which \<open>float(...)\<close> is the identity.
\<close>

definition extract_region ::
  "iris \<Rightarrow> cube \<Rightarrow> real \<Rightarrow> real \<Rightarrow> real \<Rightarrow> real \<Rightarrow> outcome" where
  "extract_region L cube start_longitude end_longitude start_latitude end_latitude =
     (case cube_coord cube ''latitude'' of
        Inl e \<Rightarrow> (cube, Inl e)
      | Inr lat \<Rightarrow>
          if length (cshape lat) = 1 then
            (case intersection L cube
                    [(''longitude'', start_longitude, end_longitude),
                     (''latitude'', start_latitude, end_latitude)] of
               Inl e \<Rightarrow> (cube, Inl e)
             | Inr region_subset \<Rightarrow>
                 (case intersection L region_subset [(''longitude'', 0, 360)] of
                    Inl e \<Rightarrow> (cube, Inl e)
                  | Inr region_subset' \<Rightarrow> (cube, Inr (Fresh region_subset'))))
          else
            (case cube_coord cube ''longitude'' of
               Inl e \<Rightarrow> (cube, Inl e)
             | Inr lon \<Rightarrow>
                 (case accumulate (mask (data cube) \<noteq> nomask) cube (mask (data cube))
                         [where_mask (\<lambda>x. x < start_latitude) lat,
                          where_mask (\<lambda>x. x > end_latitude) lat,
                          where_mask (\<lambda>x. x > start_longitude) lon,
                          where_mask (\<lambda>x. x > end_longitude) lon] of
                    (cube', Inl e) \<Rightarrow> (cube', Inl e)
                  | (cube', Inr m) \<Rightarrow>
                      (case masked_where m (data cube') of
                         Inl e \<Rightarrow> (cube', Inl e)
                       | Inr d \<Rightarrow> (cube'\<lparr>data := d\<rparr>, Inr Input)))))"

subsection \<open>\<open>zonal_means\<close>\<close>

definition zonal_means :: "iris \<Rightarrow> cube \<Rightarrow> string \<Rightarrow> string \<Rightarrow> outcome" where
  "zonal_means L cube coordinate mean_type =
     (case get_iris_analysis_operation mean_type of
        Inl e \<Rightarrow> (cube, Inl e)
      | Inr operation \<Rightarrow>
          (case collapsed L cube [coordinate] operation None of
             Inl e \<Rightarrow> (cube, Inl e)
           | Inr c \<Rightarrow> (cube, Inr (Fresh c))))"

subsection \<open>\<open>average_region\<close>\<close>

text \<open>
  \<open>fx_files\<close> is \<open>None\<close> or a dictionary from a key to a file name or \<open>None\<close>;
  Python's \<open>if fx_files\<close> holds for a dictionary that is not empty.
\<close>

type_synonym fx_files = "(string \<times> string option) list option"

definition truthy :: "fx_files \<Rightarrow> bool" where
  "truthy fx_files = (case fx_files of None \<Rightarrow> False | Some items \<Rightarrow> items \<noteq> [])"

text \<open>
  The loop over \<open>fx_files.items()\<close>, with \<open>grid_areas\<close> as its state
  (\<open>grid_areas_found\<close> holds exactly when it is not \<open>None\<close>).
\<close>

fun load_grid_areas ::
  "iris \<Rightarrow> nat list \<Rightarrow> (string \<times> string option) list \<Rightarrow> masked_array option
   \<Rightarrow> error + masked_array option" where
  "load_grid_areas L cube_shape [] grid_areas = Inr grid_areas"
| "load_grid_areas L cube_shape ((key, None) # items) grid_areas =
     load_grid_areas L cube_shape items grid_areas"
| "load_grid_areas L cube_shape ((key, Some fx_file) # items) grid_areas =
     (case load_cube L fx_file of
        Inl e \<Rightarrow> Inl e
      | Inr fx_cube \<Rightarrow>
          (let grid_areas = data fx_cube in
           load_grid_areas L cube_shape items
             (Some (if length cube_shape = 4 \<and> ndim grid_areas = 2
                    then tile grid_areas [cube_shape ! 0, cube_shape ! 1, 1, 1]
                    else if length cube_shape = 4 \<and> ndim grid_areas = 3
                    then tile grid_areas [cube_shape ! 0, 1, 1, 1]
                    else if length cube_shape = 3 \<and> ndim grid_areas = 2
                    then tile grid_areas [cube_shape ! 0, 1, 1]
                    else grid_areas))))"

text \<open>The second part of \<open>average_region\<close>, from the shape test to the end.\<close>

definition collapse_region ::
  "iris \<Rightarrow> cube \<Rightarrow> string \<Rightarrow> string \<Rightarrow> string \<Rightarrow> masked_array \<Rightarrow> outcome" where
  "collapse_region L cube coord1 coord2 operator grid_areas =
     (if shape (data cube) \<noteq> shape grid_areas
      then (cube, Inl (ValueError_shape (shape (data cube)) (shape grid_areas)))
      else
        (case get_iris_analysis_operation operator of
           Inl e \<Rightarrow> (cube, Inl e)
         | Inr operation \<Rightarrow>
             (case (if operator \<in> set [''mean'']
                    then collapsed L cube [coord1, coord2] operation (Some grid_areas)
                    else collapsed L cube [coord1, coord2] operation None) of
                Inl e \<Rightarrow> (cube, Inl e)
              | Inr c \<Rightarrow> (cube, Inr (Fresh c)))))"

text \<open>
  The first part of \<open>average_region\<close>, up to the shape test: the grid areas, loaded from
  the fx files or computed by iris from the bounds of the coordinates.
\<close>

definition find_grid_areas ::
  "iris \<Rightarrow> cube \<Rightarrow> string \<Rightarrow> string \<Rightarrow> fx_files \<Rightarrow> cube \<times> (error + masked_array)" where
  "find_grid_areas L cube coord1 coord2 fx_files =
     (case (case fx_files of
              None \<Rightarrow> Inr None
            | Some items \<Rightarrow> load_grid_areas L (shape (data cube)) items None) of
        Inl e \<Rightarrow> (cube, Inl e)
      | Inr grid_areas \<Rightarrow>
          (case (if \<not> truthy fx_files
                 then (case cube_coord cube ''latitude'' of
                         Inl e \<Rightarrow> Inl e
                       | Inr lat \<Rightarrow>
                           if length (cshape lat) = 2
                           then Inl (CoordinateMultiDimError ''latitude'')
                           else Inr ())
                 else Inr ()) of
             Inl e \<Rightarrow> (cube, Inl e)
           | Inr _ \<Rightarrow>
               (case grid_areas of
                  None \<Rightarrow>
                    (case guess_bounds L cube [coord1, coord2] of
                       (cube', Inl e) \<Rightarrow> (cube', Inl e)
                     | (cube', Inr _) \<Rightarrow>
                         (case area_weights L cube' of
                            Inl e \<Rightarrow> (cube', Inl e)
                          | Inr grid_areas' \<Rightarrow> (cube', Inr grid_areas')))
                | Some grid_areas' \<Rightarrow> (cube, Inr grid_areas'))))"

definition average_region ::
  "iris \<Rightarrow> cube \<Rightarrow> string \<Rightarrow> string \<Rightarrow> string \<Rightarrow> fx_files \<Rightarrow> outcome" where
  "average_region L cube coord1 coord2 operator fx_files =
     (case find_grid_areas L cube coord1 coord2 fx_files of
        (cube', Inl e) \<Rightarrow> (cube', Inl e)
      | (cube', Inr grid_areas) \<Rightarrow> collapse_region L cube' coord1 coord2 operator grid_areas)"

subsection \<open>\<open>extract_named_regions\<close>\<close>

text \<open>
  Indexing an array along one axis with a list of positions (\<open>a[..., ks, ...]\<close>): the
  axis gets the length of the list, the other axes stay.
\<close>

definition take_axis :: "nat list \<Rightarrow> nat \<Rightarrow> nat list \<Rightarrow> 'a list \<Rightarrow> 'a list" where
  "take_axis s ax ks xs =
     (let s' = s[ax := length ks]
      in map (\<lambda>i. let idx = unravel s' i in xs ! ravel s (idx[ax := ks ! (idx ! ax)]))
           [0 ..< prod_list s'])"

definition remove_nth :: "nat \<Rightarrow> 'a list \<Rightarrow> 'a list" where
  "remove_nth n xs = take n xs @ drop (Suc n) xs"

fun index_of :: "nat \<Rightarrow> nat list \<Rightarrow> nat option" where
  "index_of d [] = None"
| "index_of d (x # xs) = (if x = d then Some 0 else map_option Suc (index_of d xs))"

definition index_array :: "nat \<Rightarrow> nat list \<Rightarrow> masked_array \<Rightarrow> masked_array" where
  "index_array d ks a =
     \<lparr> shape = (shape a)[d := length ks],
       elements = take_axis (shape a) d ks (elements a),
       mask = (case mask a of nomask \<Rightarrow> nomask
               | MaskArr s b \<Rightarrow> MaskArr (s[d := length ks]) (take_axis s d ks b)) \<rparr>"

definition index_coord :: "nat \<Rightarrow> nat list \<Rightarrow> coord \<Rightarrow> coord" where
  "index_coord d ks c =
     (case index_of d (cdims c) of
        None \<Rightarrow> c
      | Some p \<Rightarrow>
          c\<lparr> cshape := (cshape c)[p := length ks],
             points := take_axis (cshape c) p ks (points c),
             bounds := map_option (take_axis (cshape c @ [2]) p ks) (bounds c) \<rparr>)"

text \<open>\<open>cube[..., ks, ...]\<close> with the positions \<open>ks\<close> kept on data dimension \<open>d\<close>.\<close>

definition index_cube :: "nat \<Rightarrow> nat list \<Rightarrow> cube \<Rightarrow> cube" where
  "index_cube d ks c =
     \<lparr> data = index_array d ks (data c),
       coords = map (\<lambda>(name, x). (name, index_coord d ks x)) (coords c) \<rparr>"

text \<open>
  Indexing with one integer removes the data dimension: the arrays lose the axis (of length
  one after \<open>index_cube\<close>), the coordinates that spanned it no longer do (a coordinate left
  with no axis is a scalar coordinate, of shape \<open>(1,)\<close>), and the later dimensions move
  down by one.
\<close>

definition squeeze_array :: "nat \<Rightarrow> masked_array \<Rightarrow> masked_array" where
  "squeeze_array d a =
     a\<lparr> shape := remove_nth d (shape a),
        mask := (case mask a of nomask \<Rightarrow> nomask | MaskArr s b \<Rightarrow> MaskArr (remove_nth d s) b) \<rparr>"

definition squeeze_coord :: "nat \<Rightarrow> coord \<Rightarrow> coord" where
  "squeeze_coord d c =
     (let c' = (case index_of d (cdims c) of
                  None \<Rightarrow> c
                | Some p \<Rightarrow>
                    c\<lparr> cshape := (let s = remove_nth p (cshape c) in if s = [] then [1] else s),
                       cdims := remove_nth p (cdims c) \<rparr>)
      in c'\<lparr> cdims := map (\<lambda>k. if k > d then k - 1 else k) (cdims c') \<rparr>)"

definition squeeze_cube :: "nat \<Rightarrow> cube \<Rightarrow> cube" where
  "squeeze_cube d c =
     \<lparr> data = squeeze_array d (data c),
       coords = map (\<lambda>(name, x). (name, squeeze_coord d x)) (coords c) \<rparr>"

text \<open>
  \<open>cube.extract(iris.Constraint(name=f))\<close>, iris's extraction by a test \<open>f\<close> on the
  cells of one coordinate: \<open>None\<close> when the cube has no such coordinate or no cell
  passes; otherwise the cube indexed, on the data dimension of the coordinate, with the
  positions of the cells that pass, in their order (with the integer index when there is
  exactly one). A coordinate that spans no dimension selects the whole cube or nothing.
\<close>

definition cube_extract :: "cube \<Rightarrow> string \<Rightarrow> (cell \<Rightarrow> bool) \<Rightarrow> error + returned" where
  "cube_extract cube name f =
     (case map_of (coords cube) name of
        None \<Rightarrow> Inr NoneValue
      | Some c \<Rightarrow>
          if length (cdims c) > 1 then Inl (CoordinateMultiDimError name)
          else
            (case cdims c of
               [] \<Rightarrow>
                 if list_all f (points c)
                 then (if shape (data cube) = [] then Inr Input else Inr (Fresh cube))
                 else Inr NoneValue
             | d # _ \<Rightarrow>
                 (let ks = filter (\<lambda>i. f (points c ! i)) [0 ..< length (points c)]
                  in if ks = [] then Inr NoneValue
                     else if length ks = 1
                     then Inr (Fresh (squeeze_cube d (index_cube d ks cube)))
                     else Inr (Fresh (index_cube d ks cube)))))"

text \<open>
  The argument \<open>regions\<close>: a string, a list or tuple of strings, a set of strings, or
  anything else.
\<close>

datatype regions_arg =
    Regions_str string
  | Regions_list "string list"
  | Regions_set "string set"
  | Regions_other

text \<open>\<open>set(regions)\<close> and \<open>lambda r: r in regions\<close>, after a string has become a list.\<close>

fun requested :: "regions_arg \<Rightarrow> string set" where
  "requested (Regions_str r) = {r}"
| "requested (Regions_list rs) = set rs"
| "requested (Regions_set S) = S"
| "requested Regions_other = {}"

fun in_regions :: "regions_arg \<Rightarrow> cell \<Rightarrow> bool" where
  "in_regions (Regions_str r) c = (c = Str r)"
| "in_regions (Regions_list rs) c = (c \<in> Str ` set rs)"
| "in_regions (Regions_set S) c = (c \<in> Str ` S)"
| "in_regions Regions_other c = False"

definition extract_named_regions :: "iris \<Rightarrow> cube \<Rightarrow> regions_arg \<Rightarrow> outcome" where
  "extract_named_regions L cube regions =
     (if regions = Regions_other then (cube, Inl ValueError_regions_format)
      else
        (case cube_coord cube ''region'' of
           Inl e \<Rightarrow> (cube, Inl e)
         | Inr c \<Rightarrow>
             (let available_regions = set (points c);
                  invalid_regions = {r \<in> requested regions. Str r \<notin> available_regions}
              in if invalid_regions \<noteq> {}
                 then (cube, Inl (ValueError_regions invalid_regions available_regions))
                 else
                   (case cube_extract cube ''region'' (in_regions regions) of
                      Inl e \<Rightarrow> (cube, Inl e)
                    | Inr r \<Rightarrow> (cube, Inr r)))))"

subsection \<open>The operator names as the specification words them\<close>

text \<open>
  The specification accepts a name that matches one of the operator names
  case-insensitively after trimming. \<open>strip\<close> is Python's \<open>str.strip\<close> on ASCII white
  space; \<open>spec_accepted\<close> follows the specification's sentence, not the code.
\<close>

definition is_space :: "char \<Rightarrow> bool" where
  "is_space c \<longleftrightarrow> (of_char c :: nat) \<in> {9, 10, 11, 12, 13, 32}"

definition strip :: "string \<Rightarrow> string" where
  "strip s = rev (dropWhile is_space (rev (dropWhile is_space s)))"

definition spec_accepted :: "string \<Rightarrow> bool" where
  "spec_accepted s \<longleftrightarrow> lower (strip s) \<in> set operators"

subsection \<open>Concrete cubes and a concrete library\<close>

text \<open>
  A small instance of the iris calls, for running the functions on concrete cubes: the one
  file \<open>areacello.nc\<close> holds a cube of cell areas of shape \<open>(1, 2)\<close>; \<open>collapsed\<close> yields a
  cube of one number, the sum of the elements, each multiplied by its weight when weights
  are passed; every cell of a regular grid has the area one; the guessed bounds are five
  below and five above each point.
\<close>

definition areacello :: cube where
  "areacello = \<lparr> data = \<lparr>shape = [1, 2], elements = [2, 2], mask = nomask\<rparr>,
                 coords = [] \<rparr>"

definition example_iris :: iris where
  "example_iris =
     \<lparr> intersection = (\<lambda>c window. Inr c),
       collapsed = (\<lambda>c names operation weights.
          Inr \<lparr> data = \<lparr> shape = [],
                         elements = [case weights of
                                       None \<Rightarrow> sum_list (elements (data c))
                                     | Some w \<Rightarrow>
                                         sum_list (map2 (*) (elements w) (elements (data c)))],
                         mask = nomask \<rparr>,
                coords = [] \<rparr>),
       guessed = (\<lambda>c.
          Inr (concat (map (\<lambda>p. case p of Num x \<Rightarrow> [x - 5, x + 5] | Str l \<Rightarrow> [])
                         (points c)))),
       cell_areas = (\<lambda>c. Inr \<lparr> shape = shape (data c),
                                 elements = map (\<lambda>x. 1) (elements (data c)),
                                 mask = nomask \<rparr>),
       load_cube = (\<lambda>file. if file = ''areacello.nc'' then Inr areacello
                           else Inl (LibraryError file)) \<rparr>"

text \<open>
  An irregular grid of one row and two columns, with latitudes \<open>0, 10\<close> and longitudes
  \<open>0, 10\<close>, both with bounds.
\<close>

definition grid_latitude :: coord where
  "grid_latitude = \<lparr> cshape = [1, 2], points = [Num 0, Num 10],
                     bounds = Some [-5, 5, 5, 15], cdims = [1, 2] \<rparr>"

definition grid_longitude :: coord where
  "grid_longitude = \<lparr> cshape = [1, 2], points = [Num 0, Num 10],
                      bounds = Some [-5, 5, 5, 15], cdims = [1, 2] \<rparr>"

text \<open>A field of two time steps on that grid, with no masked value.\<close>

definition field3 :: cube where
  "field3 = \<lparr> data = \<lparr>shape = [2, 1, 2], elements = [1, 2, 3, 4], mask = nomask\<rparr>,
              coords = [(''latitude'', grid_latitude), (''longitude'', grid_longitude)] \<rparr>"

text \<open>A field of the shape of the grid, with no masked value.\<close>

definition field2 :: cube where
  "field2 = \<lparr> data = \<lparr>shape = [1, 2], elements = [1, 2], mask = nomask\<rparr>,
              coords = [(''latitude'', grid_latitude\<lparr>cdims := [0, 1]\<rparr>),
                        (''longitude'', grid_longitude\<lparr>cdims := [0, 1]\<rparr>)] \<rparr>"

text \<open>
  A field on a regular grid of two latitudes and two longitudes, whose coordinates have no
  bounds.
\<close>

definition regular_field :: cube where
  "regular_field =
     \<lparr> data = \<lparr>shape = [2, 2], elements = [1, 2, 3, 4], mask = nomask\<rparr>,
       coords = [(''latitude'', \<lparr> cshape = [2], points = [Num 0, Num 10],
                                   bounds = None, cdims = [0] \<rparr>),
                 (''longitude'', \<lparr> cshape = [2], points = [Num 0, Num 10],
                                    bounds = None, cdims = [1] \<rparr>)] \<rparr>"

text \<open>A field of two time steps over three named regions.\<close>

definition region_field :: cube where
  "region_field =
     \<lparr> data = \<lparr>shape = [2, 3], elements = [1, 2, 3, 4, 5, 6], mask = nomask\<rparr>,
       coords = [(''region'', \<lparr> cshape = [3],
                                  points = [Str ''Amazon'', Str ''Congo'', Str ''Sahel''],
                                  bounds = None, cdims = [1] \<rparr>)] \<rparr>"

subsection \<open>No area file\<close>

text \<open>
  No per-cell-area array is supplied when \<open>fx_files\<close> is \<open>None\<close> or names no file
  (it is empty, or each of its entries is \<open>None\<close>).
\<close>

definition no_area_file :: "fx_files \<Rightarrow> bool" where
  "no_area_file fx_files =
     (case fx_files of None \<Rightarrow> True | Some items \<Rightarrow> list_all (\<lambda>item. snd item = None) items)"

subsection \<open>Masks of the shape of an array\<close>

text \<open>
  A mask fits an array of shape \<open>s\<close> when it is \<open>nomask\<close> or a boolean array of that shape,
  with one element for each position.
\<close>

definition fits :: "nat list \<Rightarrow> mask \<Rightarrow> bool" where
  "fits s m = (case m of nomask \<Rightarrow> True | MaskArr s' b \<Rightarrow> s' = s \<and> length b = prod_list s)"

section \<open>The operator resolver\<close>

lemma resolver_accepts:
  "(\<exists>f. get_iris_analysis_operation s = Inr f) \<longleftrightarrow> lower s \<in> set operators"
  by (auto simp add: get_iris_analysis_operation_def operators_def Let_def)

lemma resolver_rejects:
  "lower s \<notin> set operators \<Longrightarrow>
   get_iris_analysis_operation s = Inl (ValueError_operator (lower s) operators)"
  by (simp add: get_iris_analysis_operation_def operators_def Let_def)

lemma resolver_mean: "get_iris_analysis_operation s = Inr MEAN \<longleftrightarrow> lower s = ''mean''"
  by (auto simp add: get_iris_analysis_operation_def Let_def)

text \<open>
  Claim C6, as stated, fails: the resolver lowers the name and does not trim it. The name
  \<open>" mean"\<close> matches \<open>mean\<close> after trimming, and the resolver raises on it.
\<close>

theorem C6_counterexample:
  "spec_accepted '' mean'' \<and>
   get_iris_analysis_operation '' mean'' = Inl (ValueError_operator '' mean'' operators)"
  by code_simp

text \<open>
  Claim C6, amended: the resolver returns a reduction exactly when the name, lowered and
  not trimmed, is one of the eight accepted names; otherwise it raises the ValueError that
  carries the lowered name and the list of the accepted names.
\<close>

theorem C6_resolver:
  "((\<exists>f. get_iris_analysis_operation s = Inr f) \<longleftrightarrow> lower s \<in> set operators) \<and>
   ((\<nexists>f. get_iris_analysis_operation s = Inr f) \<longrightarrow>
      get_iris_analysis_operation s = Inl (ValueError_operator (lower s) operators))"
  using resolver_accepts [of s] resolver_rejects [of s] by blast

theorem C6_resolver_witness:
  "(\<exists>f. get_iris_analysis_operation ''Maximum'' = Inr f) \<and>
   (\<nexists>f. get_iris_analysis_operation ''sum'' = Inr f) \<and>
   get_iris_analysis_operation ''sum'' = Inl (ValueError_operator ''sum'' operators)"
proof -
  have a: "lower ''Maximum'' \<in> set operators" by code_simp
  have b: "lower ''sum'' \<notin> set operators" by code_simp
  have c: "lower ''sum'' = ''sum''" by code_simp
  show ?thesis
    using C6_resolver [of "''Maximum''"] C6_resolver [of "''sum''"] a b c by simp
qed

section \<open>The weighting policy of \<open>average_region\<close>\<close>

text \<open>
  Claim C1: for an operator name that the resolver accepts, once the grid areas are found
  and have the shape of the data, \<open>average_region\<close> collapses the two named coordinates
  with the resolved operation, and passes the grid areas as weights exactly when the name
  is \<open>mean\<close>; for every other accepted name the collapse gets no weights.
\<close>

theorem C1_weights_only_for_mean:
  assumes "get_iris_analysis_operation operator = Inr operation"
    and "find_grid_areas L cube coord1 coord2 fx_files = (cube', Inr grid_areas)"
    and "shape (data cube') = shape grid_areas"
  shows "average_region L cube coord1 coord2 operator fx_files =
           (cube', map_sum id Fresh
              (collapsed L cube' [coord1, coord2] operation
                 (if operator = ''mean'' then Some grid_areas else None)))"
  using assms by (simp add: average_region_def collapse_region_def split: sum.splits)

theorem C1_witness:
  "average_region example_iris field3 ''latitude'' ''longitude'' ''mean''
     (Some [(''areacello'', Some ''areacello.nc'')]) =
   (field3, map_sum id Fresh
      (collapsed example_iris field3 [''latitude'', ''longitude''] MEAN
         (Some \<lparr>shape = [2, 1, 2], elements = [2, 2, 2, 2], mask = nomask\<rparr>))) \<and>
   average_region example_iris field3 ''latitude'' ''longitude'' ''median''
     (Some [(''areacello'', Some ''areacello.nc'')]) =
   (field3, map_sum id Fresh
      (collapsed example_iris field3 [''latitude'', ''longitude''] MEDIAN None))"
proof -
  let ?fx = "Some [(''areacello'', Some ''areacello.nc'')]"
  let ?w = "\<lparr>shape = [2, 1, 2], elements = [2, 2, 2, 2], mask = nomask\<rparr>"
  have a: "get_iris_analysis_operation ''mean'' = Inr MEAN" by code_simp
  have b: "get_iris_analysis_operation ''median'' = Inr MEDIAN" by code_simp
  have c: "find_grid_areas example_iris field3 ''latitude'' ''longitude'' ?fx = (field3, Inr ?w)"
    by code_simp
  have d: "shape (data field3) = shape ?w" by code_simp
  show ?thesis
    using C1_weights_only_for_mean [OF a c d] C1_weights_only_for_mean [OF b c d] by simp
qed

text \<open>
  Claim C10: a spelling of \<open>mean\<close> that is not all in small letters is resolved to the mean
  (the resolver lowers its own copy), and the collapse is made without weights, because
  the branch compares the caller's string with \<open>mean\<close>.
\<close>

theorem C10_other_spelling_of_mean_unweighted:
  assumes "lower operator = ''mean''" and "operator \<noteq> ''mean''"
    and "find_grid_areas L cube coord1 coord2 fx_files = (cube', Inr grid_areas)"
    and "shape (data cube') = shape grid_areas"
  shows "get_iris_analysis_operation operator = Inr MEAN \<and>
         average_region L cube coord1 coord2 operator fx_files =
           (cube', map_sum id Fresh (collapsed L cube' [coord1, coord2] MEAN None))"
proof -
  have op: "get_iris_analysis_operation operator = Inr MEAN"
    using assms(1) by (simp add: resolver_mean)
  show ?thesis
    using op assms(2-4)
    by (simp add: average_region_def collapse_region_def split: sum.splits)
qed

theorem C10_witness:
  "get_iris_analysis_operation ''MEAN'' = Inr MEAN \<and>
   average_region example_iris field3 ''latitude'' ''longitude'' ''MEAN''
     (Some [(''areacello'', Some ''areacello.nc'')]) =
   (field3, map_sum id Fresh
      (collapsed example_iris field3 [''latitude'', ''longitude''] MEAN None))"
proof -
  let ?fx = "Some [(''areacello'', Some ''areacello.nc'')]"
  let ?w = "\<lparr>shape = [2, 1, 2], elements = [2, 2, 2, 2], mask = nomask\<rparr>"
  have a: "lower ''MEAN'' = ''mean''" by code_simp
  have b: "''MEAN'' \<noteq> ''mean''" by simp
  have c: "find_grid_areas example_iris field3 ''latitude'' ''longitude'' ?fx = (field3, Inr ?w)"
    by code_simp
  have d: "shape (data field3) = shape ?w" by code_simp
  show ?thesis
    using C10_other_spelling_of_mean_unweighted [OF a b c d] by simp
qed

section \<open>Positions in arrays and broadcasting\<close>

lemma length_unravel: "length (unravel s i) = length s"
  by (induction s arbitrary: i) auto

lemma unravel_less: "i < prod_list s \<Longrightarrow> list_all2 (<) (unravel s i) s"
proof (induction s arbitrary: i)
  case Nil
  then show ?case by simp
next
  case (Cons d ds)
  have pos: "0 < prod_list ds"
    using Cons.prems by (cases "prod_list ds = 0") auto
  have "i div prod_list ds < d"
    using Cons.prems pos by (simp add: less_mult_imp_div_less mult.commute)
  moreover have "i mod prod_list ds < prod_list ds"
    using pos by simp
  ultimately show ?case using Cons.IH by simp
qed

lemma ravel_less: "list_all2 (<) js s \<Longrightarrow> ravel s js < prod_list s"
proof (induction js s rule: list_all2_induct)
  case Nil
  then show ?case by simp
next
  case (Cons j js d ds)
  have "j * prod_list ds + ravel ds js < (j + 1) * prod_list ds"
    using Cons.IH by simp
  also have "\<dots> \<le> d * prod_list ds"
    using Cons.hyps(1) by (intro mult_le_mono1) simp
  finally show ?case by simp
qed

lemma ravel_unravel: "i < prod_list s \<Longrightarrow> ravel s (unravel s i) = i"
proof (induction s arbitrary: i)
  case Nil
  then show ?case by simp
next
  case (Cons d ds)
  have pos: "0 < prod_list ds"
    using Cons.prems by (cases "prod_list ds = 0") auto
  then have "ravel ds (unravel ds (i mod prod_list ds)) = i mod prod_list ds"
    using Cons.IH by simp
  then show ?case by simp
qed

lemma clip_less:
  fixes idx sa sb :: "nat list"
  assumes "list_all2 (<) idx sa" and "list_all2 (\<lambda>b a. b = a \<or> b = 1) sb sa"
  shows "list_all2 (<) (map2 (\<lambda>j d. if d = 1 then 0 else j) idx sb) sb"
  using assms
  by (auto simp add: list_all2_conv_all_nth)

lemma broadcast_index_less:
  assumes "broadcastable sb sa" and "i < prod_list sa"
  shows "broadcast_index sb sa i < prod_list sb"
proof -
  let ?k = "length sa - length sb"
  have "list_all2 (<) (drop ?k (unravel sa i)) (drop ?k sa)"
    using unravel_less [OF assms(2)] by (rule list_all2_dropI)
  moreover have "list_all2 (\<lambda>b a. b = a \<or> b = 1) sb (drop ?k sa)"
    using assms(1) by (simp add: broadcastable_def)
  ultimately show ?thesis
    unfolding broadcast_index_def by (intro ravel_less clip_less)
qed

lemma clip_same:
  fixes idx s :: "nat list"
  shows "list_all2 (<) idx s \<Longrightarrow> map2 (\<lambda>j d. if d = 1 then 0 else j) idx s = idx"
  by (induction idx s rule: list_all2_induct) auto

lemma broadcast_index_same:
  assumes "i < prod_list s"
  shows "broadcast_index s s i = i"
proof -
  have "map2 (\<lambda>j d. if d = 1 then 0 else j) (unravel s i) s = unravel s i"
    using unravel_less [OF assms] by (rule clip_same)
  then have "broadcast_index s s i = ravel s (unravel s i)"
    unfolding broadcast_index_def by simp
  then show ?thesis
    using ravel_unravel [OF assms] by simp
qed

lemma length_broadcast_to: "length (broadcast_to sb sa xs) = prod_list sa"
  by (simp add: broadcast_to_def)

lemma nth_broadcast_to:
  "i < prod_list sa \<Longrightarrow> broadcast_to sb sa xs ! i = xs ! broadcast_index sb sa i"
  by (simp add: broadcast_to_def)

lemma broadcast_to_same: "length xs = prod_list s \<Longrightarrow> broadcast_to s s xs = xs"
  by (rule nth_equalityI) (simp_all add: length_broadcast_to nth_broadcast_to broadcast_index_same)

lemma broadcastable_refl: "broadcastable s s"
  by (simp add: broadcastable_def list_all2_same)

section \<open>The irregular path of \<open>extract_region\<close>\<close>

lemma compare_numbers: "compare p (map Num xs) = Inr (map p xs)"
  by (induction xs) auto

lemma where_mask_numbers:
  "points c = map Num xs \<Longrightarrow> where_mask p c = Inr (condition_mask (cshape c) (map p xs))"
  by (simp add: where_mask_def compare_numbers)

lemma fits_condition_mask: "length cond = prod_list s \<Longrightarrow> fits s (condition_mask s cond)"
  by (simp add: fits_def condition_mask_def)

lemma masked_at_condition_mask:
  "k < length cond \<Longrightarrow> masked_at (condition_mask s cond) k = cond ! k"
  by (auto simp add: masked_at_def condition_mask_def in_set_conv_nth)

lemma mask_iadd_fits:
  assumes "fits sd m" and "fits s x" and "broadcastable s sd" and "m = nomask \<longrightarrow> sd = s"
  shows "\<exists>m'. mask_iadd m x = Inr m' \<and> fits sd m' \<and> (m \<noteq> nomask \<longrightarrow> m' \<noteq> nomask) \<and>
           (\<forall>i<prod_list sd. masked_at m' i \<longleftrightarrow>
              masked_at m i \<or> masked_at x (broadcast_index s sd i))"
proof (cases m)
  case nomask
  then show ?thesis
    using assms by (auto simp add: masked_at_def broadcast_index_same split: mask.splits)
next
  case (MaskArr s1 b)
  then have b: "s1 = sd" "length b = prod_list sd"
    using assms(1) by (simp_all add: fits_def)
  show ?thesis
  proof (cases x)
    case nomask
    then show ?thesis
      using MaskArr assms(1) by (simp add: masked_at_def)
  next
    case (MaskArr s2 c)
    then have c: "s2 = s" "length c = prod_list s"
      using assms(2) by (simp_all add: fits_def)
    show ?thesis
      using \<open>m = MaskArr s1 b\<close> MaskArr b c assms(3)
      by (simp add: fits_def masked_at_def length_broadcast_to nth_broadcast_to)
  qed
qed

lemma accumulate_fits:
  assumes "\<forall>x\<in>set xs. fits s x" and "fits sd m" and "broadcastable s sd"
    and "m = nomask \<longrightarrow> sd = s" and "shared \<longrightarrow> mask (data cube) = m"
  shows "\<exists>m'. accumulate shared cube m (map Inr xs) =
                 (if shared then cube\<lparr>data := (data cube)\<lparr>mask := m'\<rparr>\<rparr> else cube, Inr m') \<and>
               fits sd m' \<and> (m \<noteq> nomask \<longrightarrow> m' \<noteq> nomask) \<and>
               (\<forall>i<prod_list sd. masked_at m' i \<longleftrightarrow>
                  masked_at m i \<or> (\<exists>x\<in>set xs. masked_at x (broadcast_index s sd i)))"
  using assms
proof (induction xs arbitrary: cube m)
  case Nil
  then show ?case by auto
next
  case (Cons x xs)
  from mask_iadd_fits [OF Cons.prems(2) _ Cons.prems(3,4), of x] Cons.prems(1)
  obtain m1 where m1: "mask_iadd m x = Inr m1" "fits sd m1" "m \<noteq> nomask \<longrightarrow> m1 \<noteq> nomask"
    "\<forall>i<prod_list sd. masked_at m1 i \<longleftrightarrow> masked_at m i \<or> masked_at x (broadcast_index s sd i)"
    by auto
  let ?cube1 = "if shared then cube\<lparr>data := (data cube)\<lparr>mask := m1\<rparr>\<rparr> else cube"
  have p1: "\<forall>x\<in>set xs. fits s x" using Cons.prems(1) by simp
  have p4: "m1 = nomask \<longrightarrow> sd = s" using m1(3) Cons.prems(4) by auto
  have p5: "shared \<longrightarrow> mask (data ?cube1) = m1" by simp
  from Cons.IH [OF p1 m1(2) Cons.prems(3) p4 p5]
  obtain m' where m': "accumulate shared ?cube1 m1 (map Inr xs) =
                 (if shared then ?cube1\<lparr>data := (data ?cube1)\<lparr>mask := m'\<rparr>\<rparr> else ?cube1, Inr m')"
     "fits sd m'" "m1 \<noteq> nomask \<longrightarrow> m' \<noteq> nomask"
     "\<forall>i<prod_list sd. masked_at m' i \<longleftrightarrow>
                  masked_at m1 i \<or> (\<exists>x\<in>set xs. masked_at x (broadcast_index s sd i))"
    by blast
  have "accumulate shared cube m (map Inr (x # xs)) =
          (if shared then cube\<lparr>data := (data cube)\<lparr>mask := m'\<rparr>\<rparr> else cube, Inr m')"
    using m1(1) m'(1) by simp
  moreover have "m \<noteq> nomask \<longrightarrow> m' \<noteq> nomask" using m1(3) m'(3) by blast
  moreover have "\<forall>i<prod_list sd. masked_at m' i \<longleftrightarrow>
                  masked_at m i \<or> (\<exists>y\<in>set (x # xs). masked_at y (broadcast_index s sd i))"
    using m1(4) m'(4) by auto
  ultimately show ?case using m'(2) by blast
qed

lemma masked_where_fits:
  assumes "fits sd m" and "shape a = sd" and "mask a = nomask \<or> mask a = m"
  shows "\<exists>mf. masked_where m a = Inr (a\<lparr>mask := mf\<rparr>) \<and> fits sd mf \<and>
           (\<forall>i<prod_list sd. masked_at mf i \<longleftrightarrow> masked_at m i)"
proof (cases m)
  case nomask
  then have "mask a = nomask" using assms(3) by auto
  then have "masked_where m a = Inr (a\<lparr>mask := nomask\<rparr>)"
    using nomask by (simp add: masked_where_def)
  then show ?thesis using nomask by (auto simp add: fits_def)
next
  case (MaskArr s1 c)
  then have c: "s1 = sd" "length c = prod_list sd"
    using assms(1) by (simp_all add: fits_def)
  from assms(3) show ?thesis
  proof
    assume "mask a = nomask"
    then have "masked_where m a = Inr (a\<lparr>mask := condition_mask sd c\<rparr>)"
      using MaskArr c assms(2) by (simp add: masked_where_def broadcast_to_same)
    moreover have "fits sd (condition_mask sd c)"
      using c by (simp add: fits_condition_mask)
    moreover have "\<forall>i<prod_list sd. masked_at (condition_mask sd c) i \<longleftrightarrow> masked_at m i"
      using MaskArr c by (simp add: masked_at_condition_mask) (simp add: masked_at_def)
    ultimately show ?thesis by blast
  next
    assume "mask a = m"
    then have "masked_where m a = Inr (a\<lparr>mask := MaskArr sd (map2 (\<or>) c c)\<rparr>)"
      using MaskArr c assms(2) by (simp add: masked_where_def broadcast_to_same)
    moreover have "fits sd (MaskArr sd (map2 (\<or>) c c))"
      using c by (simp add: fits_def)
    moreover have "\<forall>i<prod_list sd. masked_at (MaskArr sd (map2 (\<or>) c c)) i \<longleftrightarrow> masked_at m i"
      using MaskArr c by (simp add: masked_at_def)
    ultimately show ?thesis by blast
  qed
qed

lemma extract_region_irregular_steps:
  assumes "cube_coord cube ''latitude'' = Inr lat"
    and "cube_coord cube ''longitude'' = Inr lon"
    and "length (cshape lat) \<noteq> 1"
    and "accumulate (mask (data cube) \<noteq> nomask) cube (mask (data cube))
           [where_mask (\<lambda>x. x < start_latitude) lat, where_mask (\<lambda>x. x > end_latitude) lat,
            where_mask (\<lambda>x. x > start_longitude) lon, where_mask (\<lambda>x. x > end_longitude) lon] =
         (cube1, Inr m1)"
    and "masked_where m1 (data cube1) = Inr d"
  shows "extract_region L cube start_longitude end_longitude start_latitude end_latitude =
           (cube1\<lparr>data := d\<rparr>, Inr Input)"
  using assms by (simp add: extract_region_def)

lemma extract_region_irregular:
  assumes lat: "cube_coord cube ''latitude'' = Inr lat"
    and lon: "cube_coord cube ''longitude'' = Inr lon"
    and irregular: "length (cshape lat) \<noteq> 1"
    and lats: "points lat = map Num lats" "cshape lat = s" "length lats = prod_list s"
    and lons: "points lon = map Num lons" "cshape lon = s" "length lons = prod_list s"
    and bc: "broadcastable s (shape (data cube))"
    and fits: "fits (shape (data cube)) (mask (data cube))"
    and same: "mask (data cube) = nomask \<longrightarrow> shape (data cube) = s"
  shows "\<exists>m'. extract_region L cube start_longitude end_longitude start_latitude end_latitude =
                 (cube\<lparr>data := (data cube)\<lparr>mask := m'\<rparr>\<rparr>, Inr Input) \<and>
               fits (shape (data cube)) m' \<and>
               (\<forall>i<prod_list (shape (data cube)). masked_at m' i \<longleftrightarrow>
                  masked_at (mask (data cube)) i \<or>
                  lats ! broadcast_index s (shape (data cube)) i < start_latitude \<or>
                  lats ! broadcast_index s (shape (data cube)) i > end_latitude \<or>
                  lons ! broadcast_index s (shape (data cube)) i > start_longitude \<or>
                  lons ! broadcast_index s (shape (data cube)) i > end_longitude)"
proof -
  let ?sd = "shape (data cube)" and ?m0 = "mask (data cube)"
  let ?shared = "?m0 \<noteq> nomask"
  let ?c1 = "condition_mask s (map (\<lambda>x. x < start_latitude) lats)"
  let ?c2 = "condition_mask s (map (\<lambda>x. x > end_latitude) lats)"
  let ?c3 = "condition_mask s (map (\<lambda>x. x > start_longitude) lons)"
  let ?c4 = "condition_mask s (map (\<lambda>x. x > end_longitude) lons)"
  have all_fit: "\<forall>x\<in>set [?c1, ?c2, ?c3, ?c4]. fits s x"
    using lats(3) lons(3) by (simp add: fits_condition_mask)
  have sh: "?shared \<longrightarrow> mask (data cube) = ?m0" by simp
  from accumulate_fits [OF all_fit fits bc same sh]
  obtain m1 where m1:
    "accumulate ?shared cube ?m0 (map Inr [?c1, ?c2, ?c3, ?c4]) =
       (if ?shared then cube\<lparr>data := (data cube)\<lparr>mask := m1\<rparr>\<rparr> else cube, Inr m1)"
    "fits ?sd m1" "?m0 \<noteq> nomask \<longrightarrow> m1 \<noteq> nomask"
    "\<forall>i<prod_list ?sd. masked_at m1 i \<longleftrightarrow>
       masked_at ?m0 i \<or> (\<exists>x\<in>set [?c1, ?c2, ?c3, ?c4]. masked_at x (broadcast_index s ?sd i))"
    by blast
  let ?cube1 = "if ?shared then cube\<lparr>data := (data cube)\<lparr>mask := m1\<rparr>\<rparr> else cube"
  have a2: "shape (data ?cube1) = ?sd" by simp
  have a3: "mask (data ?cube1) = nomask \<or> mask (data ?cube1) = m1" by auto
  from masked_where_fits [OF m1(2) a2 a3]
  obtain mf where mf: "masked_where m1 (data ?cube1) = Inr ((data ?cube1)\<lparr>mask := mf\<rparr>)"
    "fits ?sd mf" "\<forall>i<prod_list ?sd. masked_at mf i \<longleftrightarrow> masked_at m1 i"
    by blast
  have masks: "[where_mask (\<lambda>x. x < start_latitude) lat, where_mask (\<lambda>x. x > end_latitude) lat,
                where_mask (\<lambda>x. x > start_longitude) lon, where_mask (\<lambda>x. x > end_longitude) lon] =
               map Inr [?c1, ?c2, ?c3, ?c4]"
    using lats(1,2) lons(1,2) by (simp add: where_mask_numbers)
  have acc: "accumulate ?shared cube ?m0
               [where_mask (\<lambda>x. x < start_latitude) lat, where_mask (\<lambda>x. x > end_latitude) lat,
                where_mask (\<lambda>x. x > start_longitude) lon, where_mask (\<lambda>x. x > end_longitude) lon] =
             (?cube1, Inr m1)"
    unfolding masks by (rule m1(1))
  have "extract_region L cube start_longitude end_longitude start_latitude end_latitude =
          (?cube1\<lparr>data := (data ?cube1)\<lparr>mask := mf\<rparr>\<rparr>, Inr Input)"
    using lat lon irregular acc mf(1) by (rule extract_region_irregular_steps)
  then have result: "extract_region L cube start_longitude end_longitude start_latitude end_latitude =
          (cube\<lparr>data := (data cube)\<lparr>mask := mf\<rparr>\<rparr>, Inr Input)"
    by simp
  have cells: "\<forall>i<prod_list ?sd. masked_at mf i \<longleftrightarrow>
                  masked_at ?m0 i \<or>
                  lats ! broadcast_index s ?sd i < start_latitude \<or>
                  lats ! broadcast_index s ?sd i > end_latitude \<or>
                  lons ! broadcast_index s ?sd i > start_longitude \<or>
                  lons ! broadcast_index s ?sd i > end_longitude"
  proof (intro allI impI)
    fix i assume i: "i < prod_list ?sd"
    let ?k = "broadcast_index s ?sd i"
    have k: "?k < prod_list s" using bc i by (rule broadcast_index_less)
    have "masked_at mf i \<longleftrightarrow> masked_at ?m0 i \<or>
            (\<exists>x\<in>set [?c1, ?c2, ?c3, ?c4]. masked_at x ?k)"
      using mf(3) m1(4) i by simp
    also have "(\<exists>x\<in>set [?c1, ?c2, ?c3, ?c4]. masked_at x ?k) \<longleftrightarrow>
                 lats ! ?k < start_latitude \<or> lats ! ?k > end_latitude \<or>
                 lons ! ?k > start_longitude \<or> lons ! ?k > end_longitude"
      using k lats(3) lons(3) by (simp add: masked_at_condition_mask)
    finally show "masked_at mf i \<longleftrightarrow>
                  masked_at ?m0 i \<or> lats ! ?k < start_latitude \<or> lats ! ?k > end_latitude \<or>
                  lons ! ?k > start_longitude \<or> lons ! ?k > end_longitude" .
  qed
  from result mf(2) cells show ?thesis by blast
qed

text \<open>
  Claim C4: on the irregular path (coordinates with numbers as points, of one shape that
  broadcasts to the data, and a mask that is an array of the shape of the data, or no mask
  on data of the shape of the coordinates), a cell is masked afterwards exactly when it was
  masked before, or its latitude is below the start or above the end, or its longitude is
  above the start longitude or above the end longitude. Both longitude tests are ``greater
  than'': a cell whose longitude is below the start longitude (and not above the end) is
  not masked for it.
\<close>

theorem C4_longitude_tests:
  assumes "cube_coord cube ''latitude'' = Inr lat"
    and "cube_coord cube ''longitude'' = Inr lon"
    and "length (cshape lat) \<noteq> 1"
    and "points lat = map Num lats" "cshape lat = s" "length lats = prod_list s"
    and "points lon = map Num lons" "cshape lon = s" "length lons = prod_list s"
    and "broadcastable s (shape (data cube))"
    and "fits (shape (data cube)) (mask (data cube))"
    and "mask (data cube) = nomask \<longrightarrow> shape (data cube) = s"
  shows "\<exists>m'. extract_region L cube start_longitude end_longitude start_latitude end_latitude =
                 (cube\<lparr>data := (data cube)\<lparr>mask := m'\<rparr>\<rparr>, Inr Input) \<and>
               (\<forall>i<prod_list (shape (data cube)). masked_at m' i \<longleftrightarrow>
                  masked_at (mask (data cube)) i \<or>
                  lats ! broadcast_index s (shape (data cube)) i < start_latitude \<or>
                  lats ! broadcast_index s (shape (data cube)) i > end_latitude \<or>
                  lons ! broadcast_index s (shape (data cube)) i > start_longitude \<or>
                  lons ! broadcast_index s (shape (data cube)) i > end_longitude) \<and>
               (\<forall>i<prod_list (shape (data cube)).
                  lons ! broadcast_index s (shape (data cube)) i < start_longitude \<and>
                  lons ! broadcast_index s (shape (data cube)) i \<le> end_longitude \<and>
                  start_latitude \<le> lats ! broadcast_index s (shape (data cube)) i \<and>
                  lats ! broadcast_index s (shape (data cube)) i \<le> end_latitude \<and>
                  \<not> masked_at (mask (data cube)) i \<longrightarrow> \<not> masked_at m' i)"
proof -
  from extract_region_irregular [OF assms]
  obtain m' where
    r: "extract_region L cube start_longitude end_longitude start_latitude end_latitude =
          (cube\<lparr>data := (data cube)\<lparr>mask := m'\<rparr>\<rparr>, Inr Input)" and
    c: "\<forall>i<prod_list (shape (data cube)). masked_at m' i \<longleftrightarrow>
          masked_at (mask (data cube)) i \<or>
          lats ! broadcast_index s (shape (data cube)) i < start_latitude \<or>
          lats ! broadcast_index s (shape (data cube)) i > end_latitude \<or>
          lons ! broadcast_index s (shape (data cube)) i > start_longitude \<or>
          lons ! broadcast_index s (shape (data cube)) i > end_longitude"
    by blast
  from c have "\<forall>i<prod_list (shape (data cube)).
                  lons ! broadcast_index s (shape (data cube)) i < start_longitude \<and>
                  lons ! broadcast_index s (shape (data cube)) i \<le> end_longitude \<and>
                  start_latitude \<le> lats ! broadcast_index s (shape (data cube)) i \<and>
                  lats ! broadcast_index s (shape (data cube)) i \<le> end_latitude \<and>
                  \<not> masked_at (mask (data cube)) i \<longrightarrow> \<not> masked_at m' i"
    by auto
  with r c show ?thesis by blast
qed

theorem C4_witness:
  "\<exists>m'. extract_region example_iris field2 5 20 0 20 =
          (field2\<lparr>data := (data field2)\<lparr>mask := m'\<rparr>\<rparr>, Inr Input) \<and>
        \<not> masked_at m' 0 \<and> masked_at m' 1"
proof -
  let ?lat = "grid_latitude\<lparr>cdims := [0, 1]\<rparr>" and ?lon = "grid_longitude\<lparr>cdims := [0, 1]\<rparr>"
  have h1: "cube_coord field2 ''latitude'' = Inr ?lat" by code_simp
  have h2: "cube_coord field2 ''longitude'' = Inr ?lon" by code_simp
  have h3: "length (cshape ?lat) \<noteq> 1" by code_simp
  have h4: "points ?lat = map Num [0, 10]" by code_simp
  have h5: "cshape ?lat = [1, 2]" by code_simp
  have h6: "length [0, 10 :: real] = prod_list [1, 2]" by simp
  have h7: "points ?lon = map Num [0, 10]" by code_simp
  have h8: "cshape ?lon = [1, 2]" by code_simp
  have h9: "broadcastable [1, 2] (shape (data field2))" by code_simp
  have h10: "fits (shape (data field2)) (mask (data field2))" by code_simp
  have h11: "mask (data field2) = nomask \<longrightarrow> shape (data field2) = [1, 2]" by code_simp
  have sd: "shape (data field2) = [1, 2]" by code_simp
  have m0: "mask (data field2) = nomask" by code_simp
  have i0: "broadcast_index [1, 2] [1, 2] 0 = 0" by code_simp
  have i1: "broadcast_index [1, 2] [1, 2] 1 = 1" by code_simp
  from C4_longitude_tests [OF h1 h2 h3 h4 h5 h6 h7 h8 h6 h9 h10 h11, of example_iris 5 20 0 20]
  obtain m' where
    r: "extract_region example_iris field2 5 20 0 20 =
          (field2\<lparr>data := (data field2)\<lparr>mask := m'\<rparr>\<rparr>, Inr Input)" and
    c: "\<forall>i<prod_list (shape (data field2)). masked_at m' i \<longleftrightarrow>
          masked_at (mask (data field2)) i \<or>
          [0, 10] ! broadcast_index [1, 2] (shape (data field2)) i < (0::real) \<or>
          [0, 10] ! broadcast_index [1, 2] (shape (data field2)) i > (20::real) \<or>
          [0, 10] ! broadcast_index [1, 2] (shape (data field2)) i > (5::real) \<or>
          [0, 10] ! broadcast_index [1, 2] (shape (data field2)) i > (20::real)"
    by blast
  have "\<not> masked_at m' 0"
    using c [rule_format, of 0] unfolding sd m0 i0 by (simp add: masked_at_def)
  moreover have "masked_at m' 1"
    using c [rule_format, of 1] unfolding sd m0 i1 by (simp add: masked_at_def)
  ultimately show ?thesis using r by blast
qed

text \<open>
  Claim C9 at a field of shape \<open>(2, 1, 2)\<close> with no masked value, on the irregular grid
  of shape \<open>(1, 2)\<close>, with a box that leaves out the second cell: the accumulated mask
  has the shape of the coordinates, \<open>masked_where\<close> does not broadcast it to the data,
  and \<open>extract_region\<close> raises IndexError instead of returning the field with the cell
  masked. The lemma \<open>extract_region_irregular\<close> above is the claim where the data carry
  a mask array or have the shape of the coordinates.
\<close>

theorem C9_unmasked_field_raises:
  "cube_coord field3 ''latitude'' = Inr grid_latitude \<and> cshape grid_latitude = [1, 2] \<and>
   shape (data field3) = [2, 1, 2] \<and> mask (data field3) = nomask \<and>
   extract_region example_iris field3 0 20 0 5 =
     (field3, Inl (IndexError_shape [1, 2] [2, 1, 2]))"
  by code_simp

text \<open>
  The same field and box once the field has a mask array: the cells outside the box are
  masked at both time steps, and the shape stays.
\<close>

lemma masked_field_is_masked:
  "extract_region example_iris
     (field3\<lparr>data := (data field3)\<lparr>mask := MaskArr [2, 1, 2] [True, False, False, False]\<rparr>\<rparr>)
     0 20 0 5 =
   (field3\<lparr>data := (data field3)\<lparr>mask := MaskArr [2, 1, 2] [True, True, False, True]\<rparr>\<rparr>,
    Inr Input)"
  by code_simp

section \<open>Tiling along leading axes\<close>

lemma unravel_append:
  "i < prod_list (a @ b) \<Longrightarrow>
   unravel (a @ b) i = unravel a (i div prod_list b) @ unravel b (i mod prod_list b)"
proof (induction a arbitrary: i)
  case Nil
  then show ?case by simp
next
  case (Cons d ds)
  have pos: "0 < prod_list ds * prod_list b"
    using Cons.prems by (cases "prod_list ds * prod_list b = 0") auto
  have "i div (prod_list ds * prod_list b) = (i div prod_list b) div prod_list ds"
    by (simp add: div_mult2_eq mult.commute)
  moreover have "(i mod (prod_list ds * prod_list b)) div prod_list b =
                 (i div prod_list b) mod prod_list ds"
  proof -
    have pb: "0 < prod_list b" using pos by simp
    have "i mod (prod_list b * prod_list ds) =
            prod_list b * (i div prod_list b mod prod_list ds) + i mod prod_list b"
      by (rule mod_mult2_eq)
    then have "(i mod (prod_list b * prod_list ds)) div prod_list b =
            (i mod prod_list b + (i div prod_list b mod prod_list ds) * prod_list b) div prod_list b"
      by (simp add: ac_simps)
    also have "\<dots> = i div prod_list b mod prod_list ds"
      using pb by simp
    finally show ?thesis by (simp add: mult.commute)
  qed
  moreover have "(i mod (prod_list ds * prod_list b)) mod prod_list b = i mod prod_list b"
    by (simp add: mod_mult2_eq mult.commute)
  moreover have "i mod (prod_list ds * prod_list b) < prod_list (ds @ b)"
    using pos by simp
  ultimately show ?case using Cons.IH [of "i mod (prod_list ds * prod_list b)"] by simp
qed

lemma ravel_append:
  "length a = length ja \<Longrightarrow>
   ravel (a @ b) (ja @ jb) = ravel a ja * prod_list b + ravel b jb"
proof (induction a ja rule: list_induct2)
  case Nil
  then show ?case by simp
next
  case (Cons d ds j js)
  then show ?case by (simp add: algebra_simps)
qed

lemma ravel_ones: "ravel (replicate k (Suc 0)) (replicate k 0) = 0"
  by (induction k) simp_all

lemma mod_ones:
  "length js = k \<Longrightarrow> map2 (\<lambda>j d. j mod d) js (replicate k (Suc 0)) = replicate k 0"
proof (induction js arbitrary: k)
  case Nil
  then show ?case by simp
next
  case (Cons j js)
  then obtain k' where "k = Suc k'" by (cases k) auto
  with Cons show ?case by simp
qed

lemma mod_same:
  fixes idx s :: "nat list"
  shows "list_all2 (<) idx s \<Longrightarrow> map2 (\<lambda>j d. j mod d) idx s = idx"
  by (induction idx s rule: list_all2_induct) auto

lemma map2_times_ones_right: "length r = k \<Longrightarrow> map2 (*) r (replicate k (Suc 0)) = r"
proof (induction r arbitrary: k)
  case Nil
  then show ?case by simp
next
  case (Cons x r)
  then obtain k' where "k = Suc k'" by (cases k) auto
  with Cons show ?case by simp
qed

lemma map2_times_ones_left: "length s = k \<Longrightarrow> map2 (*) (replicate k (Suc 0)) s = s"
proof (induction s arbitrary: k)
  case Nil
  then show ?case by simp
next
  case (Cons x s)
  then obtain k' where "k = Suc k'" by (cases k) auto
  with Cons show ?case by simp
qed

lemma tile_shape_leading: "tile_shape s (r @ replicate (length s) (Suc 0)) = r @ s"
  by (simp add: tile_shape_def pad_left_def map2_times_ones_right map2_times_ones_left)

lemma tile_index_leading:
  assumes "i < prod_list (r @ s)"
  shows "ravel (replicate (length r) (Suc 0) @ s)
           (map2 (\<lambda>j d. j mod d) (unravel (r @ s) i) (replicate (length r) (Suc 0) @ s)) =
         i mod prod_list s"
proof -
  have pos: "0 < prod_list s"
    using assms by (cases "prod_list s = 0") auto
  then have low: "i mod prod_list s < prod_list s" by simp
  have "map2 (\<lambda>j d. j mod d) (unravel (r @ s) i) (replicate (length r) (Suc 0) @ s) =
          map2 (\<lambda>j d. j mod d) (unravel r (i div prod_list s)) (replicate (length r) (Suc 0)) @
          map2 (\<lambda>j d. j mod d) (unravel s (i mod prod_list s)) s"
    by (simp add: unravel_append [OF assms] length_unravel)
  also have "\<dots> = replicate (length r) 0 @ unravel s (i mod prod_list s)"
    by (simp add: mod_ones length_unravel mod_same [OF unravel_less [OF low]])
  finally show ?thesis
    by (simp add: ravel_append ravel_ones ravel_unravel [OF low])
qed

lemma concat_replicate_Suc_right: "concat (replicate (Suc m) xs) = concat (replicate m xs) @ xs"
  by (induction m) simp_all

lemma concat_replicate_nth:
  "concat (replicate m xs) = map (\<lambda>i. xs ! (i mod length xs)) [0 ..< m * length xs]"
proof (induction m)
  case 0
  then show ?case by simp
next
  case (Suc m)
  have "map (\<lambda>i. xs ! (i mod length xs)) [m * length xs ..< m * length xs + length xs] =
          map (\<lambda>j. xs ! ((m * length xs + j) mod length xs)) [0 ..< length xs]"
    by (simp add: map_add_upt [symmetric] comp_def add.commute)
  also have "\<dots> = map (\<lambda>j. xs ! j) [0 ..< length xs]"
    by (rule map_cong) auto
  also have "\<dots> = xs"
    by (rule map_nth)
  finally have last: "map (\<lambda>i. xs ! (i mod length xs))
                        [m * length xs ..< m * length xs + length xs] = xs" .
  have "concat (replicate (Suc m) xs) = concat (replicate m xs) @ xs"
    by (rule concat_replicate_Suc_right)
  also have "\<dots> = map (\<lambda>i. xs ! (i mod length xs)) [0 ..< m * length xs] @ xs"
    by (simp only: Suc.IH)
  also have "\<dots> = map (\<lambda>i. xs ! (i mod length xs))
                      ([0 ..< m * length xs] @ [m * length xs ..< m * length xs + length xs])"
    by (simp only: map_append last)
  also have "[0 ..< m * length xs] @ [m * length xs ..< m * length xs + length xs] =
             [0 ..< Suc m * length xs]"
    using upt_add_eq_append [of 0 "m * length xs" "length xs"] by (simp add: add.commute)
  finally show ?case .
qed

lemma tile_list_leading:
  assumes "length xs = prod_list s"
  shows "tile_list s (r @ replicate (length s) (Suc 0)) xs =
         concat (replicate (prod_list r) xs)"
proof -
  have "tile_list s (r @ replicate (length s) (Suc 0)) xs =
          map (\<lambda>i. xs ! ravel (replicate (length r) (Suc 0) @ s)
                        (map2 (\<lambda>j d. j mod d) (unravel (r @ s) i)
                           (replicate (length r) (Suc 0) @ s)))
            [0 ..< prod_list (r @ s)]"
    using tile_shape_leading [of s r]
    by (simp add: tile_list_def Let_def pad_left_def)
  also have "\<dots> = map (\<lambda>i. xs ! (i mod prod_list s)) [0 ..< prod_list (r @ s)]"
    by (rule map_cong) (simp_all only: tile_index_leading atLeastLessThan_iff set_upt)
  also have "\<dots> = concat (replicate (prod_list r) xs)"
    by (simp add: concat_replicate_nth assms)
  finally show ?thesis .
qed

section \<open>The grid areas of \<open>average_region\<close>\<close>

lemma tile_leading:
  assumes "length (elements a) = prod_list (shape a)" and "fits (shape a) (mask a)"
  shows "tile a (r @ replicate (length (shape a)) 1) =
           \<lparr> shape = r @ shape a,
             elements = concat (replicate (prod_list r) (elements a)),
             mask = (case mask a of
                       nomask \<Rightarrow> nomask
                     | MaskArr s b \<Rightarrow> MaskArr (r @ s) (concat (replicate (prod_list r) b))) \<rparr>"
proof (cases "mask a")
  case nomask
  then show ?thesis
    using assms(1) by (simp add: tile_def tile_shape_leading tile_list_leading)
next
  case (MaskArr s b)
  then have "s = shape a" "length b = prod_list s"
    using assms(2) by (simp_all add: fits_def)
  then show ?thesis
    using assms(1) MaskArr by (simp add: tile_def tile_shape_leading tile_list_leading)
qed

lemma load_grid_areas_no_file:
  "list_all (\<lambda>item. snd item = None) items \<Longrightarrow>
   load_grid_areas L cube_shape items grid_areas = Inr grid_areas"
  by (induction L cube_shape items grid_areas rule: load_grid_areas.induct) simp_all

lemma load_grid_areas_append:
  "load_grid_areas L cube_shape (xs @ ys) grid_areas =
     (case load_grid_areas L cube_shape xs grid_areas of
        Inl e \<Rightarrow> Inl e
      | Inr g \<Rightarrow> load_grid_areas L cube_shape ys g)"
  by (induction L cube_shape xs grid_areas rule: load_grid_areas.induct)
     (simp_all add: Let_def split: sum.splits)

lemma load_grid_areas_loads:
  "list_all (\<lambda>item. case snd item of
                      None \<Rightarrow> True
                    | Some f \<Rightarrow> \<not> isl (load_cube L f)) items \<Longrightarrow>
   \<exists>g. load_grid_areas L cube_shape items grid_areas = Inr g"
  by (induction L cube_shape items grid_areas rule: load_grid_areas.induct)
     (auto simp add: Let_def split: sum.splits)

lemma find_grid_areas_last_file:
  assumes "list_all (\<lambda>item. case snd item of
                              None \<Rightarrow> True
                            | Some f \<Rightarrow> \<not> isl (load_cube L f)) before"
    and "load_cube L fx_file = Inr fx_cube"
    and "list_all (\<lambda>item. snd item = None) after"
  shows "find_grid_areas L cube coord1 coord2 (Some (before @ (key, Some fx_file) # after)) =
           (cube, Inr (let grid_areas = data fx_cube; cube_shape = shape (data cube) in
                   if length cube_shape = 4 \<and> ndim grid_areas = 2
                   then tile grid_areas [cube_shape ! 0, cube_shape ! 1, 1, 1]
                   else if length cube_shape = 4 \<and> ndim grid_areas = 3
                   then tile grid_areas [cube_shape ! 0, 1, 1, 1]
                   else if length cube_shape = 3 \<and> ndim grid_areas = 2
                   then tile grid_areas [cube_shape ! 0, 1, 1]
                   else grid_areas))"
proof -
  obtain g where g: "load_grid_areas L (shape (data cube)) before None = Inr g"
    using load_grid_areas_loads [OF assms(1)] by blast
  show ?thesis
    using assms(2,3) g
    by (simp add: find_grid_areas_def truthy_def Let_def load_grid_areas_append
        load_grid_areas_no_file)
qed

lemma tile_none:
  assumes "fits (shape a) (mask a)"
  shows "a = \<lparr> shape = [] @ shape a,
               elements = concat (replicate (prod_list []) (elements a)),
               mask = (case mask a of
                       nomask \<Rightarrow> nomask
                     | MaskArr s b \<Rightarrow> MaskArr ([] @ s) (concat (replicate (prod_list []) b))) \<rparr>"
  by (cases a; cases "mask a") simp_all

lemma tiled_for_ranks:
  assumes "length (elements a) = prod_list (shape a)" and "fits (shape a) (mask a)"
    and "lead = (if length cs = 4 \<and> ndim a = 2 then [cs ! 0, cs ! 1]
                 else if length cs = 4 \<and> ndim a = 3 then [cs ! 0]
                 else if length cs = 3 \<and> ndim a = 2 then [cs ! 0]
                 else [])"
  shows "(if length cs = 4 \<and> ndim a = 2 then tile a [cs ! 0, cs ! 1, 1, 1]
          else if length cs = 4 \<and> ndim a = 3 then tile a [cs ! 0, 1, 1, 1]
          else if length cs = 3 \<and> ndim a = 2 then tile a [cs ! 0, 1, 1]
          else a) =
         \<lparr> shape = lead @ shape a,
           elements = concat (replicate (prod_list lead) (elements a)),
           mask = (case mask a of
                     nomask \<Rightarrow> nomask
                   | MaskArr s b \<Rightarrow> MaskArr (lead @ s) (concat (replicate (prod_list lead) b))) \<rparr>"
proof -
  have two: "length (shape a) = 2 \<Longrightarrow> tile a [m, n, 1, 1] =
      \<lparr> shape = [m, n] @ shape a,
        elements = concat (replicate (prod_list [m, n]) (elements a)),
        mask = (case mask a of
                  nomask \<Rightarrow> nomask
                | MaskArr s b \<Rightarrow> MaskArr ([m, n] @ s) (concat (replicate (prod_list [m, n]) b))) \<rparr>"
    for m n
    using tile_leading [OF assms(1,2), of "[m, n]"] by (simp add: numeral_2_eq_2)
  have two': "length (shape a) = 2 \<Longrightarrow> tile a [m, 1, 1] =
      \<lparr> shape = [m] @ shape a,
        elements = concat (replicate (prod_list [m]) (elements a)),
        mask = (case mask a of
                  nomask \<Rightarrow> nomask
                | MaskArr s b \<Rightarrow> MaskArr ([m] @ s) (concat (replicate (prod_list [m]) b))) \<rparr>"
    for m
    using tile_leading [OF assms(1,2), of "[m]"] by (simp add: numeral_2_eq_2)
  have three: "length (shape a) = 3 \<Longrightarrow> tile a [m, 1, 1, 1] =
      \<lparr> shape = [m] @ shape a,
        elements = concat (replicate (prod_list [m]) (elements a)),
        mask = (case mask a of
                  nomask \<Rightarrow> nomask
                | MaskArr s b \<Rightarrow> MaskArr ([m] @ s) (concat (replicate (prod_list [m]) b))) \<rparr>"
    for m
    using tile_leading [OF assms(1,2), of "[m]"] by (simp add: numeral_3_eq_3)
  consider (a) "length cs = 4 \<and> length (shape a) = 2"
    | (b) "\<not> (length cs = 4 \<and> length (shape a) = 2)" "length cs = 4 \<and> length (shape a) = 3"
    | (c) "\<not> (length cs = 4 \<and> length (shape a) = 2)" "\<not> (length cs = 4 \<and> length (shape a) = 3)"
          "length cs = 3 \<and> length (shape a) = 2"
    | (d) "\<not> (length cs = 4 \<and> length (shape a) = 2)" "\<not> (length cs = 4 \<and> length (shape a) = 3)"
          "\<not> (length cs = 3 \<and> length (shape a) = 2)"
    by blast
  then show ?thesis
  proof cases
    case a
    then show ?thesis
      unfolding assms(3) ndim_def using two [of "cs ! 0" "cs ! 1"] by simp
  next
    case b
    then show ?thesis
      unfolding assms(3) ndim_def using three [of "cs ! 0"] by simp
  next
    case c
    then show ?thesis
      unfolding assms(3) ndim_def using two' [of "cs ! 0"] by simp
  next
    case d
    then have l: "lead = []"
      using assms(3) by (simp add: ndim_def)
    have "(if length cs = 4 \<and> ndim a = 2 then tile a [cs ! 0, cs ! 1, 1, 1]
          else if length cs = 4 \<and> ndim a = 3 then tile a [cs ! 0, 1, 1, 1]
          else if length cs = 3 \<and> ndim a = 2 then tile a [cs ! 0, 1, 1]
          else a) = a"
      using d by (auto simp add: ndim_def)
    then show ?thesis
      unfolding l using tile_none [OF assms(2)] by (simp only:)
  qed
qed

text \<open>
  Claim C2, amended: the area array is that of the last file named in \<open>fx_files\<close> (the
  files named before it load, the entries after it are \<open>None\<close>), with one element for each
  position. The weights are that array repeated along the leading axes of the field for
  the rank pairs (2, 3), (2, 4) and (3, 4): their shape is the leading lengths of the
  field followed by the shape of the area array, and their elements and their mask are
  those of the area array, once for each leading position. For every other pair they are
  the area array itself. \<open>average_region\<close> then raises the ValueError that names both
  shapes when the shape of the weights is not the shape of the data, and reaches the
  collapse only with these weights and with the shape of the data.
\<close>

theorem C2_weights_are_the_tiled_areas:
  assumes "list_all (\<lambda>item. case snd item of
                              None \<Rightarrow> True
                            | Some f \<Rightarrow> \<not> isl (load_cube L f)) before"
    and "load_cube L fx_file = Inr fx_cube"
    and "list_all (\<lambda>item. snd item = None) after"
    and "fx_files = Some (before @ (key, Some fx_file) # after)"
    and "length (elements (data fx_cube)) = prod_list (shape (data fx_cube))"
    and "fits (shape (data fx_cube)) (mask (data fx_cube))"
    and "lead = (if length (shape (data cube)) = 4 \<and> ndim (data fx_cube) = 2
                 then [shape (data cube) ! 0, shape (data cube) ! 1]
                 else if length (shape (data cube)) = 4 \<and> ndim (data fx_cube) = 3
                 then [shape (data cube) ! 0]
                 else if length (shape (data cube)) = 3 \<and> ndim (data fx_cube) = 2
                 then [shape (data cube) ! 0]
                 else [])"
  shows "\<exists>w. find_grid_areas L cube coord1 coord2 fx_files = (cube, Inr w) \<and>
           shape w = lead @ shape (data fx_cube) \<and>
           elements w = concat (replicate (prod_list lead) (elements (data fx_cube))) \<and>
           mask w = (case mask (data fx_cube) of
                       nomask \<Rightarrow> nomask
                     | MaskArr s b \<Rightarrow> MaskArr (lead @ s) (concat (replicate (prod_list lead) b))) \<and>
           average_region L cube coord1 coord2 operator fx_files =
             (if shape (data cube) \<noteq> shape w
              then (cube, Inl (ValueError_shape (shape (data cube)) (shape w)))
              else (case get_iris_analysis_operation operator of
                      Inl e \<Rightarrow> (cube, Inl e)
                    | Inr operation \<Rightarrow>
                        (cube, map_sum id Fresh
                           (collapsed L cube [coord1, coord2] operation
                              (if operator = ''mean'' then Some w else None)))))"
proof -
  let ?a = "data fx_cube"
  let ?w = "\<lparr> shape = lead @ shape ?a,
              elements = concat (replicate (prod_list lead) (elements ?a)),
              mask = (case mask ?a of
                        nomask \<Rightarrow> nomask
                      | MaskArr s b \<Rightarrow> MaskArr (lead @ s) (concat (replicate (prod_list lead) b))) \<rparr>"
  have found: "find_grid_areas L cube coord1 coord2 fx_files = (cube, Inr ?w)"
    unfolding assms(4)
    using find_grid_areas_last_file [OF assms(1,2,3), of cube coord1 coord2 key]
      tiled_for_ranks [OF assms(5,6,7)]
    by (simp only: Let_def)
  have avg: "average_region L cube coord1 coord2 operator fx_files =
             (if shape (data cube) \<noteq> shape ?w
              then (cube, Inl (ValueError_shape (shape (data cube)) (shape ?w)))
              else (case get_iris_analysis_operation operator of
                      Inl e \<Rightarrow> (cube, Inl e)
                    | Inr operation \<Rightarrow>
                        (cube, map_sum id Fresh
                           (collapsed L cube [coord1, coord2] operation
                              (if operator = ''mean'' then Some ?w else None)))))"
    unfolding average_region_def found
    by (simp add: collapse_region_def split: sum.splits)
  have "shape ?w = lead @ shape ?a" "elements ?w = concat (replicate (prod_list lead) (elements ?a))"
    "mask ?w = (case mask ?a of
                        nomask \<Rightarrow> nomask
                      | MaskArr s b \<Rightarrow> MaskArr (lead @ s) (concat (replicate (prod_list lead) b)))"
    by simp_all
  with found avg show ?thesis by blast
qed

text \<open>
  Claim C2, as stated, fails. An area array of two axes with a field of two axes is no
  supported rank pair, and \<open>average_region\<close> raises nothing when the shapes agree: the
  area array is used as it is. And for the supported pair (2, 3), the tiled array has the
  shape of the field only when the area array has the field's trailing shape: here it has
  shape \<open>(2, 1, 2)\<close> for a field of shape \<open>(2, 2, 2)\<close>.
\<close>

theorem C2_counterexample:
  "ndim (data areacello) = 2 \<and> ndim (data field2) = 2 \<and>
   average_region example_iris field2 ''latitude'' ''longitude'' ''mean''
     (Some [(''areacello'', Some ''areacello.nc'')]) =
   (field2, Inr (Fresh \<lparr>data = \<lparr>shape = [], elements = [6], mask = nomask\<rparr>, coords = []\<rparr>)) \<and>
   snd (find_grid_areas example_iris
          (field3\<lparr>data := \<lparr>shape = [2, 2, 2], elements = [1, 2, 3, 4, 5, 6, 7, 8],
                            mask = nomask\<rparr>\<rparr>)
          ''latitude'' ''longitude'' (Some [(''areacello'', Some ''areacello.nc'')])) =
   Inr \<lparr>shape = [2, 1, 2], elements = [2, 2, 2, 2], mask = nomask\<rparr>"
  by code_simp

theorem C2_witness:
  "\<exists>w. find_grid_areas
          (example_iris\<lparr>load_cube := \<lambda>file.
             if file = ''areas.nc''
             then Inr \<lparr>data = \<lparr>shape = [1, 2], elements = [2, 3],
                              mask = MaskArr [1, 2] [False, True]\<rparr>,
                       coords = []\<rparr>
             else load_cube example_iris file\<rparr>)
          field3 ''latitude'' ''longitude''
          (Some [(''volcello'', Some ''areacello.nc''), (''areacello'', Some ''areas.nc''),
                 (''sftlf'', None)]) =
          (field3, Inr w) \<and>
        shape w = [2, 1, 2] \<and> elements w = [2, 3, 2, 3] \<and>
        mask w = MaskArr [2, 1, 2] [False, True, False, True]"
proof -
  let ?fx_cube = "\<lparr>data = \<lparr>shape = [1, 2], elements = [2, 3], mask = MaskArr [1, 2] [False, True]\<rparr>,
                   coords = []\<rparr>"
  let ?L = "example_iris\<lparr>load_cube := \<lambda>file.
             if file = ''areas.nc'' then Inr ?fx_cube else load_cube example_iris file\<rparr>"
  have b: "list_all (\<lambda>item. case snd item of None \<Rightarrow> True | Some f \<Rightarrow> \<not> isl (load_cube ?L f))
             [(''volcello'', Some ''areacello.nc'')]"
    by code_simp
  have a: "load_cube ?L ''areas.nc'' = Inr ?fx_cube" by simp
  have c: "list_all (\<lambda>item. snd item = None) [(''sftlf'', None :: string option)]" by simp
  have f: "Some [(''volcello'', Some ''areacello.nc''), (''areacello'', Some ''areas.nc''),
                 (''sftlf'', None)] =
           Some ([(''volcello'', Some ''areacello.nc'')] @ (''areacello'', Some ''areas.nc'') #
                 [(''sftlf'', None)])"
    by simp
  have h2: "length (elements (data ?fx_cube)) = prod_list (shape (data ?fx_cube))" by simp
  have h3: "fits (shape (data ?fx_cube)) (mask (data ?fx_cube))" by (simp add: fits_def)
  have s1: "shape (data field3) = [2, 1, 2]" by code_simp
  have h4: "[2] = (if length (shape (data field3)) = 4 \<and> ndim (data ?fx_cube) = 2
                 then [shape (data field3) ! 0, shape (data field3) ! 1]
                 else if length (shape (data field3)) = 4 \<and> ndim (data ?fx_cube) = 3
                 then [shape (data field3) ! 0]
                 else if length (shape (data field3)) = 3 \<and> ndim (data ?fx_cube) = 2
                 then [shape (data field3) ! 0]
                 else [])"
    unfolding s1 by (simp add: ndim_def)
  from C2_weights_are_the_tiled_areas [OF b a c f h2 h3 h4, of "''latitude''" "''longitude''" "''max''"]
  obtain w where
    w1: "find_grid_areas ?L field3 ''latitude'' ''longitude''
           (Some [(''volcello'', Some ''areacello.nc''), (''areacello'', Some ''areas.nc''),
                 (''sftlf'', None)]) = (field3, Inr w)" and
    w2: "shape w = [2] @ shape (data ?fx_cube)" and
    w3: "elements w = concat (replicate (prod_list [2]) (elements (data ?fx_cube)))" and
    w4: "mask w = (case mask (data ?fx_cube) of
                       nomask \<Rightarrow> nomask
                     | MaskArr s b \<Rightarrow> MaskArr ([2] @ s) (concat (replicate (prod_list [2]) b)))"
    by blast
  have sw: "shape w = [2, 1, 2]"
    unfolding w2 by simp
  have ew: "elements w = [2, 3, 2, 3]"
    unfolding w3 by (simp add: numeral_2_eq_2)
  have mw: "mask w = MaskArr [2, 1, 2] [False, True, False, True]"
    unfolding w4 by (simp add: numeral_2_eq_2)
  from w1 sw ew mw show ?thesis by blast
qed

text \<open>
  With \<open>fx_files\<close> \<open>None\<close> or empty, an irregular grid is refused by the module.
\<close>

lemma irregular_without_fx_files:
  assumes "\<not> truthy fx_files" and "cube_coord cube ''latitude'' = Inr lat"
    and "length (cshape lat) = 2"
  shows "average_region L cube coord1 coord2 operator fx_files =
           (cube, Inl (CoordinateMultiDimError ''latitude''))"
  using assms
  by (auto simp add: average_region_def find_grid_areas_def truthy_def split: option.splits)

lemma guess_bounds_two_axes:
  assumes "cube_coord cube coord1 = Inr c1" and "length (cshape c1) = 2"
    and "cube_coord cube coord2 = Inr c2" and "length (cshape c2) = 2"
  shows "guess_bounds L cube [coord1, coord2] =
           (cube, if \<not> has_bounds c1 then Inl (CoordinateMultiDimError coord1)
                  else if \<not> has_bounds c2 then Inl (CoordinateMultiDimError coord2)
                  else Inr ())"
  using assms by (simp add: coord_guess_bounds_def)

lemma area_weights_two_axes:
  assumes "cube_coord cube ''latitude'' = Inr lat" and "length (cshape lat) = 2"
    and "cube_coord cube ''longitude'' = Inr lon"
  shows "area_weights L cube = Inl (CoordinateMultiDimError ''latitude'')"
  using assms by (simp add: area_weights_def)

lemma irregular_with_empty_entries:
  assumes "truthy fx_files" and "no_area_file fx_files"
    and "cube_coord cube ''latitude'' = Inr lat" and "length (cshape lat) = 2"
    and "cube_coord cube ''longitude'' = Inr lon"
    and "cube_coord cube coord1 = Inr c1" and "length (cshape c1) = 2"
    and "cube_coord cube coord2 = Inr c2" and "length (cshape c2) = 2"
  shows "average_region L cube coord1 coord2 operator fx_files =
           (cube, Inl (CoordinateMultiDimError
                         (if \<not> has_bounds c1 then coord1
                          else if \<not> has_bounds c2 then coord2 else ''latitude'')))"
proof -
  obtain items where items: "fx_files = Some items" "list_all (\<lambda>item. snd item = None) items"
    using assms(1,2) by (cases fx_files) (simp_all add: truthy_def no_area_file_def)
  have loaded: "load_grid_areas L (shape (data cube)) items None = Inr None"
    using items(2) by (rule load_grid_areas_no_file)
  have "find_grid_areas L cube coord1 coord2 fx_files =
          (cube, Inl (CoordinateMultiDimError
                         (if \<not> has_bounds c1 then coord1
                          else if \<not> has_bounds c2 then coord2 else ''latitude'')))"
    unfolding find_grid_areas_def items(1)
    using assms(1) loaded guess_bounds_two_axes [OF assms(6-9), of L]
      area_weights_two_axes [OF assms(3-5), of L]
    by (simp add: items(1) del: guess_bounds.simps)
  then show ?thesis
    by (simp add: average_region_def)
qed

text \<open>
  Claim C5: on a field whose latitude and longitude have two axes, averaging over two
  coordinates of two axes with no area array supplied (\<open>fx_files\<close> is \<open>None\<close>, empty,
  or holds only \<open>None\<close>) fails with CoordinateMultiDimError. With \<open>fx_files\<close> \<open>None\<close>
  or empty the module raises it itself; with entries that are all \<open>None\<close> that test is
  passed over and iris raises it, in \<open>guess_bounds\<close> for a named coordinate without
  bounds or else at the start of \<open>area_weights\<close>. In no case does the outcome depend on
  the numbers of the library: no cell area is computed.
\<close>

theorem C5_irregular_grid_needs_area_file:
  assumes "cube_coord cube ''latitude'' = Inr lat" and "length (cshape lat) = 2"
    and "cube_coord cube ''longitude'' = Inr lon" and "length (cshape lon) = 2"
    and "cube_coord cube coord1 = Inr c1" and "length (cshape c1) = 2"
    and "cube_coord cube coord2 = Inr c2" and "length (cshape c2) = 2"
    and "no_area_file fx_files"
  shows "average_region L cube coord1 coord2 operator fx_files =
           (cube, Inl (CoordinateMultiDimError
                         (if \<not> truthy fx_files then ''latitude''
                          else if \<not> has_bounds c1 then coord1
                          else if \<not> has_bounds c2 then coord2 else ''latitude'')))"
proof (cases "truthy fx_files")
  case True
  then show ?thesis
    using irregular_with_empty_entries [OF True assms(9,1,2,3,5,6,7,8)] by simp
next
  case False
  then show ?thesis
    using irregular_without_fx_files [OF False assms(1,2)] by simp
qed

theorem C5_witness:
  "average_region example_iris field3 ''latitude'' ''longitude'' ''mean'' None =
     (field3, Inl (CoordinateMultiDimError ''latitude'')) \<and>
   average_region example_iris field3 ''latitude'' ''longitude'' ''mean''
     (Some [(''areacello'', None)]) =
     (field3, Inl (CoordinateMultiDimError ''latitude''))"
proof -
  have lat: "cube_coord field3 ''latitude'' = Inr grid_latitude" by code_simp
  have lon: "cube_coord field3 ''longitude'' = Inr grid_longitude" by code_simp
  have s1: "length (cshape grid_latitude) = 2" by code_simp
  have s2: "length (cshape grid_longitude) = 2" by code_simp
  have n1: "no_area_file None" by code_simp
  have n2: "no_area_file (Some [(''areacello'', None)])" by code_simp
  have t1: "\<not> truthy None" by code_simp
  have t2: "truthy (Some [(''areacello'', None :: string option)])" by code_simp
  have b1: "has_bounds grid_latitude" by code_simp
  have b2: "has_bounds grid_longitude" by code_simp
  show ?thesis
    using C5_irregular_grid_needs_area_file [OF lat s1 lon s2 lat s1 lon s2 n1,
            of example_iris "''mean''"]
      C5_irregular_grid_needs_area_file [OF lat s1 lon s2 lat s1 lon s2 n2,
            of example_iris "''mean''"]
      t1 t2 b1 b2
    by simp
qed

section \<open>What the calls do to the cube they are given\<close>

lemma extract_region_regular:
  assumes "cube_coord cube ''latitude'' = Inr lat" and "length (cshape lat) = 1"
  shows "extract_region L cube start_longitude end_longitude start_latitude end_latitude =
           (cube, case intersection L cube
                         [(''longitude'', start_longitude, end_longitude),
                          (''latitude'', start_latitude, end_latitude)] of
                    Inl e \<Rightarrow> Inl e
                  | Inr region_subset \<Rightarrow>
                      map_sum id Fresh (intersection L region_subset [(''longitude'', 0, 360)]))"
  using assms by (simp add: extract_region_def split: sum.splits)

lemma extract_region_regular_input:
  assumes "cube_coord cube ''latitude'' = Inr lat" and "length (cshape lat) = 1"
  shows "fst (extract_region L cube lon0 lon1 lat0 lat1) = cube"
  using extract_region_regular [OF assms] by simp

lemma extract_region_irregular_returns_input:
  assumes "cube_coord cube ''latitude'' = Inr lat" and "length (cshape lat) \<noteq> 1"
    and "snd (extract_region L cube lon0 lon1 lat0 lat1) = Inr r"
  shows "r = Input"
  using assms by (auto simp add: extract_region_def split: sum.splits prod.splits)

lemma zonal_means_outcome:
  "zonal_means L cube coordinate mean_type =
     (cube, case get_iris_analysis_operation mean_type of
              Inl e \<Rightarrow> Inl e
            | Inr operation \<Rightarrow> map_sum id Fresh (collapsed L cube [coordinate] operation None))"
  by (simp add: zonal_means_def split: sum.splits)

lemma cube_extract_input:
  "cube_extract cube name f = Inr Input \<Longrightarrow> shape (data cube) = []"
  by (auto simp add: cube_extract_def Let_def split: option.splits list.splits if_splits)

lemma extract_named_regions_input:
  "fst (extract_named_regions L cube regions) = cube \<and>
   (snd (extract_named_regions L cube regions) = Inr Input \<longrightarrow> shape (data cube) = [])"
  using cube_extract_input [of cube "''region''" "in_regions regions"]
  by (auto simp add: extract_named_regions_def Let_def split: sum.splits)

lemma extract_named_regions_invalid:
  assumes "cube_coord cube ''region'' = Inr c" and "regions \<noteq> Regions_other"
    and "\<exists>r\<in>requested regions. Str r \<notin> set (points c)"
  shows "extract_named_regions L cube regions =
           (cube, Inl (ValueError_regions {r \<in> requested regions. Str r \<notin> set (points c)}
                         (set (points c))))"
proof -
  have "{r \<in> requested regions. Str r \<notin> set (points c)} \<noteq> {}"
    using assms(3) by blast
  then show ?thesis
    using assms(1,2) by (simp add: extract_named_regions_def Let_def)
qed

lemma extract_named_regions_valid:
  assumes "cube_coord cube ''region'' = Inr c" and "regions \<noteq> Regions_other"
    and "\<forall>r\<in>requested regions. Str r \<in> set (points c)"
  shows "extract_named_regions L cube regions =
           (cube, cube_extract cube ''region'' (in_regions regions))"
proof -
  have "{r \<in> requested regions. Str r \<notin> set (points c)} = {}"
    using assms(3) by blast
  then show ?thesis
    using assms(1,2)
    by (cases "cube_extract cube ''region'' (in_regions regions)")
       (simp_all only: extract_named_regions_def Let_def sum.case if_False simp_thms)
qed

lemma extract_named_regions_outcome:
  assumes "cube_coord cube ''region'' = Inr c"
  shows "extract_named_regions L cube regions =
           (cube, if regions = Regions_other then Inl ValueError_regions_format
                  else if \<exists>r\<in>requested regions. Str r \<notin> set (points c)
                  then Inl (ValueError_regions
                              {r \<in> requested regions. Str r \<notin> set (points c)} (set (points c)))
                  else cube_extract cube ''region'' (in_regions regions))"
proof (cases "regions = Regions_other")
  case True
  then show ?thesis
    by (simp add: extract_named_regions_def)
next
  case other: False
  show ?thesis
  proof (cases "\<exists>r\<in>requested regions. Str r \<notin> set (points c)")
    case True
    then show ?thesis
      using extract_named_regions_invalid [OF assms other True] other by simp
  next
    case False
    then have "\<forall>r\<in>requested regions. Str r \<in> set (points c)" by blast
    then show ?thesis
      using extract_named_regions_valid [OF assms other] False other by simp
  qed
qed

lemma same_mask: "cube\<lparr>data := (data cube)\<lparr>mask := mask (data cube)\<rparr>\<rparr> = cube"
  by simp

lemma accumulate_input:
  "\<exists>m'. fst (accumulate shared cube m xs) = cube\<lparr>data := (data cube)\<lparr>mask := m'\<rparr>\<rparr>"
proof (induction shared cube m xs rule: accumulate.induct)
  case (1 shared cube m)
  show ?case using same_mask [of cube, symmetric] by (auto intro: exI [of _ "mask (data cube)"])
next
  case (2 shared cube m e rest)
  show ?case using same_mask [of cube, symmetric] by (auto intro: exI [of _ "mask (data cube)"])
next
  case (3 shared cube m x rest)
  show ?case
  proof (cases "mask_iadd m x")
    case (Inl e)
    then show ?thesis
      using same_mask [of cube, symmetric] by (auto intro: exI [of _ "mask (data cube)"])
  next
    case (Inr m1)
    from 3 [OF Inr] obtain m' where
      "fst (accumulate shared (if shared then cube\<lparr>data := (data cube)\<lparr>mask := m1\<rparr>\<rparr> else cube)
              m1 rest) =
       (if shared then cube\<lparr>data := (data cube)\<lparr>mask := m1\<rparr>\<rparr> else cube)
         \<lparr>data := (data (if shared then cube\<lparr>data := (data cube)\<lparr>mask := m1\<rparr>\<rparr> else cube))
                    \<lparr>mask := m'\<rparr>\<rparr>"
      by blast
    then have "fst (accumulate shared cube m (Inr x # rest)) =
                 cube\<lparr>data := (data cube)\<lparr>mask := m'\<rparr>\<rparr>"
      using Inr by (simp split: if_splits)
    then show ?thesis by blast
  qed
qed

lemma masked_where_mask_only:
  "masked_where m a = Inr d \<Longrightarrow> \<exists>m'. d = a\<lparr>mask := m'\<rparr>"
  by (cases m) (auto simp add: masked_where_def split: if_splits intro: exI [of _ "mask a"])

lemma extract_region_input:
  "\<exists>m'. fst (extract_region L cube lon0 lon1 lat0 lat1) =
          cube\<lparr>data := (data cube)\<lparr>mask := m'\<rparr>\<rparr>"
proof (cases "cube_coord cube ''latitude''")
  case (Inl e)
  then have "fst (extract_region L cube lon0 lon1 lat0 lat1) = cube"
    by (simp add: extract_region_def)
  then show ?thesis using same_mask [of cube] by metis
next
  case (Inr lat)
  show ?thesis
  proof (cases "length (cshape lat) = 1")
    case True
    then have "fst (extract_region L cube lon0 lon1 lat0 lat1) = cube"
      using extract_region_regular_input [OF Inr] by blast
    then show ?thesis using same_mask [of cube] by metis
  next
    case False
    show ?thesis
    proof (cases "cube_coord cube ''longitude''")
      case (Inl e)
      then have "fst (extract_region L cube lon0 lon1 lat0 lat1) = cube"
        using Inr False by (simp add: extract_region_def)
      then show ?thesis using same_mask [of cube] by metis
    next
      case lon: (Inr lon)
      let ?acc = "accumulate (mask (data cube) \<noteq> nomask) cube (mask (data cube))
                    [where_mask (\<lambda>x. x < lat0) lat, where_mask (\<lambda>x. x > lat1) lat,
                     where_mask (\<lambda>x. x > lon0) lon, where_mask (\<lambda>x. x > lon1) lon]"
      obtain cube1 r where acc: "?acc = (cube1, r)" by (cases ?acc)
      from accumulate_input [of "mask (data cube) \<noteq> nomask" cube "mask (data cube)"
             "[where_mask (\<lambda>x. x < lat0) lat, where_mask (\<lambda>x. x > lat1) lat,
               where_mask (\<lambda>x. x > lon0) lon, where_mask (\<lambda>x. x > lon1) lon]"]
      obtain m1 where cube1: "cube1 = cube\<lparr>data := (data cube)\<lparr>mask := m1\<rparr>\<rparr>"
        using acc by auto
      show ?thesis
      proof (cases r)
        case (Inl e)
        then have "fst (extract_region L cube lon0 lon1 lat0 lat1) = cube1"
          using Inr False lon acc by (simp add: extract_region_def)
        then show ?thesis using cube1 by blast
      next
        case m: (Inr m)
        show ?thesis
        proof (cases "masked_where m (data cube1)")
          case (Inl e)
          then have "fst (extract_region L cube lon0 lon1 lat0 lat1) = cube1"
            using Inr False lon acc m by (simp add: extract_region_def)
          then show ?thesis using cube1 by blast
        next
          case d: (Inr d)
          then obtain m' where "d = (data cube1)\<lparr>mask := m'\<rparr>"
            using masked_where_mask_only by blast
          moreover have "fst (extract_region L cube lon0 lon1 lat0 lat1) = cube1\<lparr>data := d\<rparr>"
            using Inr False lon acc m d by (simp add: extract_region_def)
          ultimately have "fst (extract_region L cube lon0 lon1 lat0 lat1) =
                             cube\<lparr>data := (data cube)\<lparr>mask := m'\<rparr>\<rparr>"
            using cube1 by simp
          then show ?thesis by blast
        qed
      qed
    qed
  qed
qed


lemma coord_guess_bounds_result:
  "coord_guess_bounds L name c = Inr c' \<Longrightarrow> \<exists>b. guessed L c = Inr b \<and> c' = c\<lparr>bounds := Some b\<rparr>"
  by (auto simp add: coord_guess_bounds_def split: if_splits sum.splits)

lemma guess_bounds_step:
  assumes "cube_coord cube n = Inr c" and "\<not> has_bounds c"
    and "coord_guess_bounds L n c = Inr c'"
  shows "guess_bounds L cube (n # names) =
           guess_bounds L (cube\<lparr>coords := AList.update n c' (coords cube)\<rparr>) names"
  using assms by simp

lemma guess_bounds_stop:
  assumes "cube_coord cube n = Inl e \<or>
           (\<exists>c. cube_coord cube n = Inr c \<and> \<not> has_bounds c \<and> (\<exists>e. coord_guess_bounds L n c = Inl e))"
  shows "fst (guess_bounds L cube (n # names)) = cube"
  using assms by auto

lemma guess_bounds_skip:
  assumes "cube_coord cube n = Inr c" and "has_bounds c"
  shows "guess_bounds L cube (n # names) = guess_bounds L cube names"
  using assms by simp

lemma guess_bounds_cases:
  obtains (stop) "fst (guess_bounds L cube (n # names)) = cube"
  | (skip) "guess_bounds L cube (n # names) = guess_bounds L cube names"
  | (step) c b where "map_of (coords cube) n = Some c" "bounds c = None" "guessed L c = Inr b"
      "length (cshape c) = 1"
      "guess_bounds L cube (n # names) =
         guess_bounds L (cube\<lparr>coords := AList.update n (c\<lparr>bounds := Some b\<rparr>) (coords cube)\<rparr>) names"
proof (cases "cube_coord cube n")
  case (Inl e)
  then show ?thesis using stop by simp
next
  case (Inr c)
  then have c: "map_of (coords cube) n = Some c"
    by (simp add: cube_coord_def split: option.splits)
  show ?thesis
  proof (cases "has_bounds c")
    case True
    then show ?thesis using skip Inr by simp
  next
    case False
    show ?thesis
    proof (cases "coord_guess_bounds L n c")
      case (Inl e)
      then show ?thesis using stop Inr False by simp
    next
      case c': (Inr c')
      then obtain b where b: "guessed L c = Inr b" "c' = c\<lparr>bounds := Some b\<rparr>"
        using coord_guess_bounds_result by blast
      have one: "length (cshape c) = 1"
        using c' by (simp add: coord_guess_bounds_def split: if_splits)
      have "bounds c = None" using False by (simp add: has_bounds_def)
      then show ?thesis
        using step [OF c _ b(1) one] guess_bounds_step [OF Inr False c'] b(2) by simp
    qed
  qed
qed

lemma guess_bounds_data: "data (fst (guess_bounds L cube names)) = data cube"
proof (induction names arbitrary: cube)
  case Nil
  then show ?case by simp
next
  case (Cons n names)
  show ?case
  proof (cases rule: guess_bounds_cases [of L cube n names])
    case stop
    then show ?thesis by simp
  next
    case skip
    then show ?thesis using Cons.IH [of cube] by simp
  next
    case (step c b)
    then show ?thesis
      using Cons.IH [of "cube\<lparr>coords := AList.update n (c\<lparr>bounds := Some b\<rparr>) (coords cube)\<rparr>"]
      by simp
  qed
qed

lemma guess_bounds_keeps:
  "map_option (\<lambda>c. c\<lparr>bounds := None\<rparr>) (map_of (coords (fst (guess_bounds L cube names))) name) =
   map_option (\<lambda>c. c\<lparr>bounds := None\<rparr>) (map_of (coords cube) name)"
proof (induction names arbitrary: cube)
  case Nil
  then show ?case by simp
next
  case (Cons n names)
  show ?case
  proof (cases rule: guess_bounds_cases [of L cube n names])
    case stop
    then show ?thesis by simp
  next
    case skip
    then show ?thesis using Cons.IH [of cube] by simp
  next
    case (step c b)
    define cube1 where "cube1 = cube\<lparr>coords := AList.update n (c\<lparr>bounds := Some b\<rparr>) (coords cube)\<rparr>"
    have "map_option (\<lambda>c. c\<lparr>bounds := None\<rparr>) (map_of (coords cube1) name) =
          map_option (\<lambda>c. c\<lparr>bounds := None\<rparr>) (map_of (coords cube) name)"
      using step(1) by (simp add: cube1_def update_conv')
    then show ?thesis
      using Cons.IH [of cube1] step(5) by (simp add: cube1_def)
  qed
qed

lemma guess_bounds_changes:
  assumes "map_of (coords (fst (guess_bounds L cube names))) name \<noteq> map_of (coords cube) name"
  shows "name \<in> set names \<and> (\<exists>c. map_of (coords cube) name = Some c \<and> bounds c = None)"
  using assms
proof (induction names arbitrary: cube)
  case Nil
  then show ?case by simp
next
  case (Cons n names)
  show ?case
  proof (cases rule: guess_bounds_cases [of L cube n names])
    case stop
    then show ?thesis using Cons.prems by simp
  next
    case skip
    then show ?thesis using Cons.IH [of cube] Cons.prems by simp
  next
    case (step c b)
    define cube1 where "cube1 = cube\<lparr>coords := AList.update n (c\<lparr>bounds := Some b\<rparr>) (coords cube)\<rparr>"
    have m1: "map_of (coords cube1) = (map_of (coords cube))(n \<mapsto> c\<lparr>bounds := Some b\<rparr>)"
      by (simp add: cube1_def update_conv')
    have g: "guess_bounds L cube (n # names) = guess_bounds L cube1 names"
      using step(5) by (simp add: cube1_def)
    show ?thesis
    proof (cases "name = n")
      case True
      then show ?thesis using step(1,2) by simp
    next
      case False
      then have same: "map_of (coords cube1) name = map_of (coords cube) name"
        by (simp add: m1)
      with Cons.prems g have "map_of (coords (fst (guess_bounds L cube1 names))) name \<noteq>
                               map_of (coords cube1) name"
        by simp
      from Cons.IH [OF this] same show ?thesis by simp
    qed
  qed
qed

lemma guess_bounds_gives:
  assumes "map_of (coords cube) coord1 = Some c" and "bounds c = None"
    and "length (cshape c) = 1" and "guessed L c = Inr b"
  shows "map_of (coords (fst (guess_bounds L cube (coord1 # names)))) coord1 =
           Some (c\<lparr>bounds := Some b\<rparr>)"
proof -
  define cube1 where "cube1 = cube\<lparr>coords := AList.update coord1 (c\<lparr>bounds := Some b\<rparr>) (coords cube)\<rparr>"
  have lookup: "cube_coord cube coord1 = Inr c"
    using assms(1) by (simp add: cube_coord_def)
  have "coord_guess_bounds L coord1 c = Inr (c\<lparr>bounds := Some b\<rparr>)"
    using assms(3,4) by (simp add: coord_guess_bounds_def)
  then have g: "guess_bounds L cube (coord1 # names) = guess_bounds L cube1 names"
    using lookup assms(2) by (simp add: cube1_def has_bounds_def)
  have at1: "map_of (coords cube1) coord1 = Some (c\<lparr>bounds := Some b\<rparr>)"
    by (simp add: cube1_def update_conv')
  have "map_of (coords (fst (guess_bounds L cube1 names))) coord1 = map_of (coords cube1) coord1"
  proof (rule ccontr)
    assume "map_of (coords (fst (guess_bounds L cube1 names))) coord1 \<noteq>
            map_of (coords cube1) coord1"
    from guess_bounds_changes [OF this] at1 show False by simp
  qed
  with g at1 show ?thesis by simp
qed

lemma guess_bounds_gives_second:
  assumes "coord1 \<noteq> coord2"
    and "map_of (coords cube) coord1 = Some c1" and "bounds c1 = None"
    and "length (cshape c1) = 1" and "guessed L c1 = Inr b1"
    and "map_of (coords cube) coord2 = Some c2" and "bounds c2 = None"
    and "length (cshape c2) = 1" and "guessed L c2 = Inr b2"
  shows "map_of (coords (fst (guess_bounds L cube [coord1, coord2]))) coord2 =
           Some (c2\<lparr>bounds := Some b2\<rparr>)"
proof -
  define cube1 where
    "cube1 = cube\<lparr>coords := AList.update coord1 (c1\<lparr>bounds := Some b1\<rparr>) (coords cube)\<rparr>"
  have lookup: "cube_coord cube coord1 = Inr c1"
    using assms(2) by (simp add: cube_coord_def)
  have "coord_guess_bounds L coord1 c1 = Inr (c1\<lparr>bounds := Some b1\<rparr>)"
    using assms(4,5) by (simp add: coord_guess_bounds_def)
  then have g: "guess_bounds L cube [coord1, coord2] = guess_bounds L cube1 [coord2]"
    using lookup assms(3) by (simp add: cube1_def has_bounds_def)
  have at2: "map_of (coords cube1) coord2 = Some c2"
    using assms(1,6) by (simp add: cube1_def update_conv')
  show ?thesis
    unfolding g by (rule guess_bounds_gives [OF at2 assms(7-9)])
qed

lemma collapse_region_input:
  "fst (collapse_region L cube coord1 coord2 operator grid_areas) = cube \<and>
   (\<forall>x. snd (collapse_region L cube coord1 coord2 operator grid_areas) = Inr x \<longrightarrow>
        (\<exists>c. x = Fresh c))"
  by (auto simp add: collapse_region_def split: sum.splits)

lemma find_grid_areas_input:
  "fst (find_grid_areas L cube coord1 coord2 fx_files) = cube \<or>
   fst (find_grid_areas L cube coord1 coord2 fx_files) = fst (guess_bounds L cube [coord1, coord2])"
  by (simp add: find_grid_areas_def del: guess_bounds.simps
        split: sum.splits option.splits prod.splits)

lemma find_grid_areas_without_files:
  assumes "cube_coord cube ''latitude'' = Inr lat" and "length (cshape lat) \<noteq> 2"
  shows "fst (find_grid_areas L cube coord1 coord2 None) = fst (guess_bounds L cube [coord1, coord2])"
  using assms
  by (simp add: find_grid_areas_def truthy_def del: guess_bounds.simps
        split: sum.splits option.splits prod.splits)

lemma average_region_fst:
  "fst (average_region L cube coord1 coord2 operator fx_files) =
   fst (find_grid_areas L cube coord1 coord2 fx_files)"
proof (cases "find_grid_areas L cube coord1 coord2 fx_files")
  case (Pair cube' r)
  then show ?thesis
    using collapse_region_input [of L cube' coord1 coord2 operator]
    by (cases r) (simp_all add: average_region_def)
qed

lemma average_region_returns_new:
  assumes "snd (average_region L cube coord1 coord2 operator fx_files) = Inr x"
  shows "\<exists>c. x = Fresh c"
proof (cases "find_grid_areas L cube coord1 coord2 fx_files")
  case (Pair cube' r)
  then show ?thesis
    using assms collapse_region_input [of L cube' coord1 coord2 operator]
    by (cases r) (simp_all add: average_region_def)
qed

lemma average_region_input:
  "data (fst (average_region L cube coord1 coord2 operator fx_files)) = data cube \<and>
   (\<forall>name. map_option (\<lambda>c. c\<lparr>bounds := None\<rparr>)
             (map_of (coords (fst (average_region L cube coord1 coord2 operator fx_files))) name) =
           map_option (\<lambda>c. c\<lparr>bounds := None\<rparr>) (map_of (coords cube) name)) \<and>
   (\<forall>name. map_of (coords (fst (average_region L cube coord1 coord2 operator fx_files))) name \<noteq>
            map_of (coords cube) name \<longrightarrow>
      name \<in> {coord1, coord2} \<and> (\<exists>c. map_of (coords cube) name = Some c \<and> bounds c = None))"
proof -
  let ?r = "fst (average_region L cube coord1 coord2 operator fx_files)"
  have "?r = cube \<or> ?r = fst (guess_bounds L cube [coord1, coord2])"
    using find_grid_areas_input [of L cube coord1 coord2 fx_files]
    by (simp only: average_region_fst)
  then show ?thesis
  proof
    assume "?r = cube"
    then show ?thesis by simp
  next
    assume r: "?r = fst (guess_bounds L cube [coord1, coord2])"
    have "data ?r = data cube"
      unfolding r by (rule guess_bounds_data)
    moreover have "\<forall>name. map_option (\<lambda>c. c\<lparr>bounds := None\<rparr>) (map_of (coords ?r) name) =
           map_option (\<lambda>c. c\<lparr>bounds := None\<rparr>) (map_of (coords cube) name)"
      unfolding r by (intro allI guess_bounds_keeps)
    moreover have "\<forall>name. map_of (coords ?r) name \<noteq> map_of (coords cube) name \<longrightarrow>
      name \<in> {coord1, coord2} \<and> (\<exists>c. map_of (coords cube) name = Some c \<and> bounds c = None)"
      unfolding r using guess_bounds_changes [of L cube "[coord1, coord2]"]
      by (simp del: guess_bounds.simps)
    ultimately show ?thesis by blast
  qed
qed

lemma average_region_gives_bounds:
  assumes "cube_coord cube ''latitude'' = Inr lat" and "length (cshape lat) \<noteq> 2"
    and "map_of (coords cube) coord1 = Some c" and "bounds c = None"
    and "length (cshape c) = 1" and "guessed L c = Inr b"
  shows "map_of (coords (fst (average_region L cube coord1 coord2 operator None))) coord1 =
           Some (c\<lparr>bounds := Some b\<rparr>)"
  unfolding average_region_fst find_grid_areas_without_files [OF assms(1,2)]
  by (rule guess_bounds_gives [OF assms(3-6)])

lemma average_region_gives_bounds_second:
  assumes "cube_coord cube ''latitude'' = Inr lat" and "length (cshape lat) \<noteq> 2"
    and "coord1 \<noteq> coord2"
    and "map_of (coords cube) coord1 = Some c1" and "bounds c1 = None"
    and "length (cshape c1) = 1" and "guessed L c1 = Inr b1"
    and "map_of (coords cube) coord2 = Some c2" and "bounds c2 = None"
    and "length (cshape c2) = 1" and "guessed L c2 = Inr b2"
  shows "map_of (coords (fst (average_region L cube coord1 coord2 operator None))) coord2 =
           Some (c2\<lparr>bounds := Some b2\<rparr>)"
  unfolding average_region_fst find_grid_areas_without_files [OF assms(1,2)]
  by (rule guess_bounds_gives_second [OF assms(3-11)])

text \<open>
  Claim C3, as stated, fails. On an irregular grid \<open>extract_region\<close> assigns the masked
  array to \<open>cube.data\<close> and returns the cube it was given: the caller's field had no
  mask and has one after the call, and no new field is made. And \<open>average_region\<close>
  without area file calls \<open>_guess_bounds\<close> on the cube it was given: the caller's
  latitude had no bounds and has bounds after the call.
\<close>

theorem C3_counterexample:
  "mask (data field2) = nomask \<and>
   mask (data (fst (extract_region example_iris field2 0 20 0 5))) = MaskArr [1, 2] [False, True] \<and>
   fst (extract_region example_iris field2 0 20 0 5) \<noteq> field2 \<and>
   snd (extract_region example_iris field2 0 20 0 5) = Inr Input \<and>
   map_option bounds (map_of (coords regular_field) ''latitude'') = Some None \<and>
   map_option bounds
     (map_of (coords (fst (average_region example_iris regular_field ''latitude'' ''longitude''
                             ''mean'' None))) ''latitude'') = Some (Some [-5, 5, 5, 15])"
  by code_simp

text \<open>
  Claim C3, amended, with iris's \<open>intersection\<close>, \<open>collapsed\<close> and \<open>extract\<close> taken to
  build new cubes and to leave the cube they are called on as it is.
  \<^item> On a regular grid \<open>extract_region\<close> leaves the caller's field as it was and returns
    what the two intersections make.
  \<^item> On an irregular grid \<open>extract_region\<close> changes nothing of the caller's field but
    the mask of its data, and what it returns is the caller's field itself; where the mask
    and the coordinates fit the data, it does return, and the new mask is the old one
    together with the four tests.
  \<^item> \<open>zonal_means\<close> leaves the caller's field as it was and returns what \<open>collapsed\<close>
    makes.
  \<^item> \<open>extract_named_regions\<close> leaves the caller's field as it was, and returns it only
    when the data have no axis; what it returns is the error for the request or what
    \<open>extract\<close> makes.
  \<^item> \<open>average_region\<close> leaves the data as they were and every coordinate as it was up
    to its bounds (no point, shape or dimension changes); the bounds change only for the
    two coordinates given by name, and only when they had none; what it returns is a new
    field; and with no \<open>fx_files\<close>, once the test for an irregular grid is passed, a
    named coordinate of one axis without bounds has the guessed bounds afterwards (the
    second one when iris has guessed bounds for the first).
\<close>

theorem C3_input_after_the_call:
  "(\<forall>lat. cube_coord cube ''latitude'' = Inr lat \<and> length (cshape lat) = 1 \<longrightarrow>
      extract_region L cube lon0 lon1 lat0 lat1 =
        (cube, case intersection L cube [(''longitude'', lon0, lon1), (''latitude'', lat0, lat1)] of
                 Inl e \<Rightarrow> Inl e
               | Inr region_subset \<Rightarrow>
                   map_sum id Fresh (intersection L region_subset [(''longitude'', 0, 360)]))) \<and>
   (\<forall>lat. cube_coord cube ''latitude'' = Inr lat \<and> length (cshape lat) \<noteq> 1 \<longrightarrow>
      (\<exists>m'. fst (extract_region L cube lon0 lon1 lat0 lat1) =
              cube\<lparr>data := (data cube)\<lparr>mask := m'\<rparr>\<rparr>) \<and>
      (\<forall>r. snd (extract_region L cube lon0 lon1 lat0 lat1) = Inr r \<longrightarrow> r = Input)) \<and>
   (\<forall>lat lon lats lons s.
      cube_coord cube ''latitude'' = Inr lat \<and> cube_coord cube ''longitude'' = Inr lon \<and>
      length (cshape lat) \<noteq> 1 \<and>
      points lat = map Num lats \<and> cshape lat = s \<and> length lats = prod_list s \<and>
      points lon = map Num lons \<and> cshape lon = s \<and> length lons = prod_list s \<and>
      broadcastable s (shape (data cube)) \<and> fits (shape (data cube)) (mask (data cube)) \<and>
      (mask (data cube) = nomask \<longrightarrow> shape (data cube) = s) \<longrightarrow>
      (\<exists>m'. extract_region L cube lon0 lon1 lat0 lat1 =
               (cube\<lparr>data := (data cube)\<lparr>mask := m'\<rparr>\<rparr>, Inr Input) \<and>
             (\<forall>i<prod_list (shape (data cube)). masked_at m' i \<longleftrightarrow>
                masked_at (mask (data cube)) i \<or>
                lats ! broadcast_index s (shape (data cube)) i < lat0 \<or>
                lats ! broadcast_index s (shape (data cube)) i > lat1 \<or>
                lons ! broadcast_index s (shape (data cube)) i > lon0 \<or>
                lons ! broadcast_index s (shape (data cube)) i > lon1))) \<and>
   zonal_means L cube coordinate mean_type =
     (cube, case get_iris_analysis_operation mean_type of
              Inl e \<Rightarrow> Inl e
            | Inr operation \<Rightarrow> map_sum id Fresh (collapsed L cube [coordinate] operation None)) \<and>
   fst (extract_named_regions L cube regions) = cube \<and>
   (snd (extract_named_regions L cube regions) = Inr Input \<longrightarrow> shape (data cube) = []) \<and>
   (\<forall>c. cube_coord cube ''region'' = Inr c \<longrightarrow>
      extract_named_regions L cube regions =
        (cube, if regions = Regions_other then Inl ValueError_regions_format
               else if \<exists>r\<in>requested regions. Str r \<notin> set (points c)
               then Inl (ValueError_regions
                           {r \<in> requested regions. Str r \<notin> set (points c)} (set (points c)))
               else cube_extract cube ''region'' (in_regions regions))) \<and>
   data (fst (average_region L cube coord1 coord2 operator fx_files)) = data cube \<and>
   (\<forall>name. map_option (\<lambda>c. c\<lparr>bounds := None\<rparr>)
             (map_of (coords (fst (average_region L cube coord1 coord2 operator fx_files))) name) =
           map_option (\<lambda>c. c\<lparr>bounds := None\<rparr>) (map_of (coords cube) name)) \<and>
   (\<forall>name. map_of (coords (fst (average_region L cube coord1 coord2 operator fx_files))) name \<noteq>
            map_of (coords cube) name \<longrightarrow>
      name \<in> {coord1, coord2} \<and> (\<exists>c. map_of (coords cube) name = Some c \<and> bounds c = None)) \<and>
   (\<forall>x. snd (average_region L cube coord1 coord2 operator fx_files) = Inr x \<longrightarrow>
        (\<exists>c. x = Fresh c)) \<and>
   (\<forall>lat c b. cube_coord cube ''latitude'' = Inr lat \<and> length (cshape lat) \<noteq> 2 \<and>
      map_of (coords cube) coord1 = Some c \<and> bounds c = None \<and> length (cshape c) = 1 \<and>
      guessed L c = Inr b \<longrightarrow>
      map_of (coords (fst (average_region L cube coord1 coord2 operator None))) coord1 =
        Some (c\<lparr>bounds := Some b\<rparr>)) \<and>
   (\<forall>lat c1 b1 c2 b2. cube_coord cube ''latitude'' = Inr lat \<and> length (cshape lat) \<noteq> 2 \<and>
      coord1 \<noteq> coord2 \<and>
      map_of (coords cube) coord1 = Some c1 \<and> bounds c1 = None \<and> length (cshape c1) = 1 \<and>
      guessed L c1 = Inr b1 \<and>
      map_of (coords cube) coord2 = Some c2 \<and> bounds c2 = None \<and> length (cshape c2) = 1 \<and>
      guessed L c2 = Inr b2 \<longrightarrow>
      map_of (coords (fst (average_region L cube coord1 coord2 operator None))) coord2 =
        Some (c2\<lparr>bounds := Some b2\<rparr>))"
proof -
  have regular: "\<forall>lat. cube_coord cube ''latitude'' = Inr lat \<and> length (cshape lat) = 1 \<longrightarrow>
      extract_region L cube lon0 lon1 lat0 lat1 =
        (cube, case intersection L cube [(''longitude'', lon0, lon1), (''latitude'', lat0, lat1)] of
                 Inl e \<Rightarrow> Inl e
               | Inr region_subset \<Rightarrow>
                   map_sum id Fresh (intersection L region_subset [(''longitude'', 0, 360)]))"
    using extract_region_regular by blast
  have irregular: "\<forall>lat. cube_coord cube ''latitude'' = Inr lat \<and> length (cshape lat) \<noteq> 1 \<longrightarrow>
      (\<exists>m'. fst (extract_region L cube lon0 lon1 lat0 lat1) =
              cube\<lparr>data := (data cube)\<lparr>mask := m'\<rparr>\<rparr>) \<and>
      (\<forall>r. snd (extract_region L cube lon0 lon1 lat0 lat1) = Inr r \<longrightarrow> r = Input)"
    using extract_region_input [of L cube lon0 lon1 lat0 lat1]
      extract_region_irregular_returns_input [of cube _ L lon0 lon1 lat0 lat1]
    by blast
  have masked: "\<forall>lat lon lats lons s.
      cube_coord cube ''latitude'' = Inr lat \<and> cube_coord cube ''longitude'' = Inr lon \<and>
      length (cshape lat) \<noteq> 1 \<and>
      points lat = map Num lats \<and> cshape lat = s \<and> length lats = prod_list s \<and>
      points lon = map Num lons \<and> cshape lon = s \<and> length lons = prod_list s \<and>
      broadcastable s (shape (data cube)) \<and> fits (shape (data cube)) (mask (data cube)) \<and>
      (mask (data cube) = nomask \<longrightarrow> shape (data cube) = s) \<longrightarrow>
      (\<exists>m'. extract_region L cube lon0 lon1 lat0 lat1 =
               (cube\<lparr>data := (data cube)\<lparr>mask := m'\<rparr>\<rparr>, Inr Input) \<and>
             (\<forall>i<prod_list (shape (data cube)). masked_at m' i \<longleftrightarrow>
                masked_at (mask (data cube)) i \<or>
                lats ! broadcast_index s (shape (data cube)) i < lat0 \<or>
                lats ! broadcast_index s (shape (data cube)) i > lat1 \<or>
                lons ! broadcast_index s (shape (data cube)) i > lon0 \<or>
                lons ! broadcast_index s (shape (data cube)) i > lon1))"
  proof (intro allI impI, elim conjE)
    fix lat lon lats lons s
    assume h: "cube_coord cube ''latitude'' = Inr lat" "cube_coord cube ''longitude'' = Inr lon"
      "length (cshape lat) \<noteq> 1"
      "points lat = map Num lats" "cshape lat = s" "length lats = prod_list s"
      "points lon = map Num lons" "cshape lon = s" "length lons = prod_list s"
      "broadcastable s (shape (data cube))" "fits (shape (data cube)) (mask (data cube))"
      "mask (data cube) = nomask \<longrightarrow> shape (data cube) = s"
    from extract_region_irregular [OF h, of L lon0 lon1 lat0 lat1]
    show "\<exists>m'. extract_region L cube lon0 lon1 lat0 lat1 =
               (cube\<lparr>data := (data cube)\<lparr>mask := m'\<rparr>\<rparr>, Inr Input) \<and>
             (\<forall>i<prod_list (shape (data cube)). masked_at m' i \<longleftrightarrow>
                masked_at (mask (data cube)) i \<or>
                lats ! broadcast_index s (shape (data cube)) i < lat0 \<or>
                lats ! broadcast_index s (shape (data cube)) i > lat1 \<or>
                lons ! broadcast_index s (shape (data cube)) i > lon0 \<or>
                lons ! broadcast_index s (shape (data cube)) i > lon1)"
      by blast
  qed
  have gives: "\<forall>lat c b. cube_coord cube ''latitude'' = Inr lat \<and> length (cshape lat) \<noteq> 2 \<and>
      map_of (coords cube) coord1 = Some c \<and> bounds c = None \<and> length (cshape c) = 1 \<and>
      guessed L c = Inr b \<longrightarrow>
      map_of (coords (fst (average_region L cube coord1 coord2 operator None))) coord1 =
        Some (c\<lparr>bounds := Some b\<rparr>)"
    using average_region_gives_bounds [of cube _ _ _ L _ coord2 operator] by blast
  have gives2: "\<forall>lat c1 b1 c2 b2. cube_coord cube ''latitude'' = Inr lat \<and>
      length (cshape lat) \<noteq> 2 \<and> coord1 \<noteq> coord2 \<and>
      map_of (coords cube) coord1 = Some c1 \<and> bounds c1 = None \<and> length (cshape c1) = 1 \<and>
      guessed L c1 = Inr b1 \<and>
      map_of (coords cube) coord2 = Some c2 \<and> bounds c2 = None \<and> length (cshape c2) = 1 \<and>
      guessed L c2 = Inr b2 \<longrightarrow>
      map_of (coords (fst (average_region L cube coord1 coord2 operator None))) coord2 =
        Some (c2\<lparr>bounds := Some b2\<rparr>)"
    using average_region_gives_bounds_second [of cube _ coord1 coord2 _ L _ _ _ operator]
    by blast
  have new: "\<forall>x. snd (average_region L cube coord1 coord2 operator fx_files) = Inr x \<longrightarrow>
        (\<exists>c. x = Fresh c)"
    using average_region_returns_new by blast
  have named: "\<forall>c. cube_coord cube ''region'' = Inr c \<longrightarrow>
      extract_named_regions L cube regions =
        (cube, if regions = Regions_other then Inl ValueError_regions_format
               else if \<exists>r\<in>requested regions. Str r \<notin> set (points c)
               then Inl (ValueError_regions
                           {r \<in> requested regions. Str r \<notin> set (points c)} (set (points c)))
               else cube_extract cube ''region'' (in_regions regions))"
    using extract_named_regions_outcome [of cube _ L regions] by blast
  show ?thesis
    using regular irregular masked gives gives2 new named
      zonal_means_outcome [of L cube coordinate mean_type]
      extract_named_regions_input [of L cube regions]
      average_region_input [of L cube coord1 coord2 operator fx_files]
    by (intro conjI) blast+
qed

theorem C3_witness:
  "(\<exists>m'. extract_region example_iris field2 5 20 0 20 =
           (field2\<lparr>data := (data field2)\<lparr>mask := m'\<rparr>\<rparr>, Inr Input) \<and>
         \<not> masked_at m' 0 \<and> masked_at m' 1) \<and>
   extract_region example_iris regular_field (-10) 10 (-5) 5 =
     (regular_field, Inr (Fresh regular_field)) \<and>
   zonal_means example_iris regular_field ''longitude'' ''mean'' =
     (regular_field,
      Inr (Fresh \<lparr>data = \<lparr>shape = [], elements = [10], mask = nomask\<rparr>, coords = []\<rparr>)) \<and>
   data (fst (average_region example_iris regular_field ''latitude'' ''longitude'' ''mean'' None)) =
     data regular_field \<and>
   map_of (coords (fst (average_region example_iris regular_field ''latitude'' ''longitude''
                          ''mean'' None))) ''latitude'' =
     Some \<lparr>cshape = [2], points = [Num 0, Num 10], bounds = Some [-5, 5, 5, 15], cdims = [0]\<rparr> \<and>
   map_of (coords (fst (average_region example_iris regular_field ''latitude'' ''longitude''
                          ''mean'' None))) ''longitude'' =
     Some \<lparr>cshape = [2], points = [Num 0, Num 10], bounds = Some [-5, 5, 5, 15], cdims = [1]\<rparr> \<and>
   extract_named_regions example_iris region_field (Regions_str ''Congo'') =
     (region_field,
      Inr (Fresh \<lparr>data = \<lparr>shape = [2], elements = [2, 5], mask = nomask\<rparr>,
                  coords = [(''region'', \<lparr>cshape = [1], points = [Str ''Congo''],
                                           bounds = None, cdims = []\<rparr>)]\<rparr>))"
proof -
  let ?lat2 = "grid_latitude\<lparr>cdims := [0, 1]\<rparr>" and ?lon2 = "grid_longitude\<lparr>cdims := [0, 1]\<rparr>"
  let ?lat = "\<lparr>cshape = [2], points = [Num 0, Num 10], bounds = None, cdims = [0]\<rparr>"
  note irregular = C3_input_after_the_call [where cube = field2 and L = example_iris
      and ?lon0.0 = 5 and ?lon1.0 = 20 and ?lat0.0 = 0 and ?lat1.0 = 20
      and coordinate = "''longitude''" and mean_type = "''mean''"
      and regions = "Regions_str ''Congo''" and ?coord1.0 = "''latitude''"
      and ?coord2.0 = "''longitude''" and operator = "''mean''" and fx_files = None]
  note regular = C3_input_after_the_call [where cube = regular_field and L = example_iris
      and ?lon0.0 = "-10" and ?lon1.0 = 10 and ?lat0.0 = "-5" and ?lat1.0 = 5
      and coordinate = "''longitude''" and mean_type = "''mean''"
      and regions = "Regions_str ''Congo''" and ?coord1.0 = "''latitude''"
      and ?coord2.0 = "''longitude''" and operator = "''mean''" and fx_files = None]
  have h: "cube_coord field2 ''latitude'' = Inr ?lat2 \<and> cube_coord field2 ''longitude'' = Inr ?lon2 \<and>
      length (cshape ?lat2) \<noteq> 1 \<and>
      points ?lat2 = map Num [0, 10] \<and> cshape ?lat2 = [1, 2] \<and>
      length [0, 10 :: real] = prod_list [1, 2] \<and>
      points ?lon2 = map Num [0, 10] \<and> cshape ?lon2 = [1, 2] \<and>
      length [0, 10 :: real] = prod_list [1, 2] \<and>
      broadcastable [1, 2] (shape (data field2)) \<and> fits (shape (data field2)) (mask (data field2)) \<and>
      (mask (data field2) = nomask \<longrightarrow> shape (data field2) = [1, 2])"
    by code_simp
  have sd: "shape (data field2) = [1, 2]" by code_simp
  have m0: "mask (data field2) = nomask" by code_simp
  have i0: "broadcast_index [1, 2] [1, 2] 0 = 0" by code_simp
  have i1: "broadcast_index [1, 2] [1, 2] 1 = 1" by code_simp
  from irregular [THEN conjunct2, THEN conjunct2, THEN conjunct1, rule_format, OF h]
  obtain m' where
    r: "extract_region example_iris field2 5 20 0 20 =
          (field2\<lparr>data := (data field2)\<lparr>mask := m'\<rparr>\<rparr>, Inr Input)" and
    c: "\<forall>i<prod_list (shape (data field2)). masked_at m' i \<longleftrightarrow>
          masked_at (mask (data field2)) i \<or>
          [0, 10] ! broadcast_index [1, 2] (shape (data field2)) i < (0::real) \<or>
          [0, 10] ! broadcast_index [1, 2] (shape (data field2)) i > (20::real) \<or>
          [0, 10] ! broadcast_index [1, 2] (shape (data field2)) i > (5::real) \<or>
          [0, 10] ! broadcast_index [1, 2] (shape (data field2)) i > (20::real)"
    by blast
  have "\<not> masked_at m' 0"
    using c [rule_format, of 0] unfolding sd m0 i0 by (simp add: masked_at_def)
  moreover have "masked_at m' 1"
    using c [rule_format, of 1] unfolding sd m0 i1 by (simp add: masked_at_def)
  ultimately have w1: "\<exists>m'. extract_region example_iris field2 5 20 0 20 =
           (field2\<lparr>data := (data field2)\<lparr>mask := m'\<rparr>\<rparr>, Inr Input) \<and>
         \<not> masked_at m' 0 \<and> masked_at m' 1"
    using r by blast
  have l: "cube_coord regular_field ''latitude'' = Inr ?lat \<and> length (cshape ?lat) = 1"
    by code_simp
  have i: "(case intersection example_iris regular_field
                   [(''longitude'', -10, 10), (''latitude'', -5, 5)] of
              Inl e \<Rightarrow> Inl e
            | Inr region_subset \<Rightarrow>
                map_sum id Fresh (intersection example_iris region_subset [(''longitude'', 0, 360)])) =
           Inr (Fresh regular_field)"
    by (simp add: example_iris_def)
  from regular [THEN conjunct1, rule_format, OF l]
  have "extract_region example_iris regular_field (-10) 10 (-5) 5 =
        (regular_field, case intersection example_iris regular_field
                   [(''longitude'', -10, 10), (''latitude'', -5, 5)] of
              Inl e \<Rightarrow> Inl e
            | Inr region_subset \<Rightarrow>
                map_sum id Fresh (intersection example_iris region_subset [(''longitude'', 0, 360)]))" .
  then have w2: "extract_region example_iris regular_field (-10) 10 (-5) 5 =
     (regular_field, Inr (Fresh regular_field))"
    unfolding i .
  have z: "(case get_iris_analysis_operation ''mean'' of
              Inl e \<Rightarrow> Inl e
            | Inr operation \<Rightarrow>
                map_sum id Fresh (collapsed example_iris regular_field [''longitude''] operation None)) =
           Inr (Fresh \<lparr>data = \<lparr>shape = [], elements = [10], mask = nomask\<rparr>, coords = []\<rparr>)"
    by code_simp
  from regular [THEN conjunct2, THEN conjunct2, THEN conjunct2, THEN conjunct1]
  have "zonal_means example_iris regular_field ''longitude'' ''mean'' =
     (regular_field, case get_iris_analysis_operation ''mean'' of
              Inl e \<Rightarrow> Inl e
            | Inr operation \<Rightarrow>
                map_sum id Fresh (collapsed example_iris regular_field [''longitude''] operation None))" .
  then have w3: "zonal_means example_iris regular_field ''longitude'' ''mean'' =
     (regular_field,
      Inr (Fresh \<lparr>data = \<lparr>shape = [], elements = [10], mask = nomask\<rparr>, coords = []\<rparr>))"
    unfolding z .
  from regular [THEN conjunct2, THEN conjunct2, THEN conjunct2, THEN conjunct2,
      THEN conjunct2, THEN conjunct2, THEN conjunct2, THEN conjunct1]
  have w4: "data (fst (average_region example_iris regular_field ''latitude''
                                      ''longitude'' ''mean'' None)) = data regular_field" .
  have g: "cube_coord regular_field ''latitude'' = Inr ?lat \<and> length (cshape ?lat) \<noteq> 2 \<and>
      map_of (coords regular_field) ''latitude'' = Some ?lat \<and> bounds ?lat = None \<and>
      length (cshape ?lat) = 1 \<and> guessed example_iris ?lat = Inr [-5, 5, 5, 15]"
    by code_simp
  from regular [THEN conjunct2, THEN conjunct2, THEN conjunct2, THEN conjunct2,
      THEN conjunct2, THEN conjunct2, THEN conjunct2, THEN conjunct2, THEN conjunct2,
      THEN conjunct2, THEN conjunct2, THEN conjunct1, rule_format, OF g]
  have "map_of (coords (fst (average_region example_iris regular_field ''latitude''
                          ''longitude'' ''mean'' None))) ''latitude'' =
     Some (?lat\<lparr>bounds := Some [-5, 5, 5, 15]\<rparr>)" .
  then have w5: "map_of (coords (fst (average_region example_iris regular_field ''latitude''
                          ''longitude'' ''mean'' None))) ''latitude'' =
     Some \<lparr>cshape = [2], points = [Num 0, Num 10], bounds = Some [-5, 5, 5, 15], cdims = [0]\<rparr>"
    by simp
  let ?lon = "\<lparr>cshape = [2], points = [Num 0, Num 10], bounds = None, cdims = [1]\<rparr>"
  have g2: "cube_coord regular_field ''latitude'' = Inr ?lat \<and> length (cshape ?lat) \<noteq> 2 \<and>
      ''latitude'' \<noteq> ''longitude'' \<and>
      map_of (coords regular_field) ''latitude'' = Some ?lat \<and> bounds ?lat = None \<and>
      length (cshape ?lat) = 1 \<and> guessed example_iris ?lat = Inr [-5, 5, 5, 15] \<and>
      map_of (coords regular_field) ''longitude'' = Some ?lon \<and> bounds ?lon = None \<and>
      length (cshape ?lon) = 1 \<and> guessed example_iris ?lon = Inr [-5, 5, 5, 15]"
    by code_simp
  from regular [THEN conjunct2, THEN conjunct2, THEN conjunct2, THEN conjunct2,
      THEN conjunct2, THEN conjunct2, THEN conjunct2, THEN conjunct2, THEN conjunct2,
      THEN conjunct2, THEN conjunct2, THEN conjunct2, rule_format, OF g2]
  have "map_of (coords (fst (average_region example_iris regular_field ''latitude''
                          ''longitude'' ''mean'' None))) ''longitude'' =
     Some (?lon\<lparr>bounds := Some [-5, 5, 5, 15]\<rparr>)" .
  then have w6: "map_of (coords (fst (average_region example_iris regular_field ''latitude''
                          ''longitude'' ''mean'' None))) ''longitude'' =
     Some \<lparr>cshape = [2], points = [Num 0, Num 10], bounds = Some [-5, 5, 5, 15], cdims = [1]\<rparr>"
    by simp
  let ?region = "\<lparr>cshape = [3], points = [Str ''Amazon'', Str ''Congo'', Str ''Sahel''],
                  bounds = None, cdims = [1]\<rparr>"
  note named = C3_input_after_the_call [where cube = region_field and L = example_iris
      and ?lon0.0 = 0 and ?lon1.0 = 0 and ?lat0.0 = 0 and ?lat1.0 = 0
      and coordinate = "''longitude''" and mean_type = "''mean''"
      and regions = "Regions_str ''Congo''" and ?coord1.0 = "''latitude''"
      and ?coord2.0 = "''longitude''" and operator = "''mean''" and fx_files = None]
  have n: "cube_coord region_field ''region'' = Inr ?region" by code_simp
  have x: "cube_extract region_field ''region'' (in_regions (Regions_str ''Congo'')) =
           Inr (Fresh \<lparr>data = \<lparr>shape = [2], elements = [2, 5], mask = nomask\<rparr>,
                       coords = [(''region'', \<lparr>cshape = [1], points = [Str ''Congo''],
                                                bounds = None, cdims = []\<rparr>)]\<rparr>)"
    by code_simp
  have e: "(if Regions_str ''Congo'' = Regions_other then Inl ValueError_regions_format
            else if \<exists>r\<in>requested (Regions_str ''Congo''). Str r \<notin> set (points ?region)
            then Inl (ValueError_regions
                        {r \<in> requested (Regions_str ''Congo''). Str r \<notin> set (points ?region)}
                        (set (points ?region)))
            else Inr (Fresh \<lparr>data = \<lparr>shape = [2], elements = [2, 5], mask = nomask\<rparr>,
                             coords = [(''region'', \<lparr>cshape = [1], points = [Str ''Congo''],
                                                      bounds = None, cdims = []\<rparr>)]\<rparr>)) =
           Inr (Fresh \<lparr>data = \<lparr>shape = [2], elements = [2, 5], mask = nomask\<rparr>,
                       coords = [(''region'', \<lparr>cshape = [1], points = [Str ''Congo''],
                                                bounds = None, cdims = []\<rparr>)]\<rparr>)"
    by simp
  from named [THEN conjunct2, THEN conjunct2, THEN conjunct2, THEN conjunct2,
      THEN conjunct2, THEN conjunct2, THEN conjunct1, rule_format, OF n]
  have w7: "extract_named_regions example_iris region_field (Regions_str ''Congo'') =
     (region_field,
      Inr (Fresh \<lparr>data = \<lparr>shape = [2], elements = [2, 5], mask = nomask\<rparr>,
                  coords = [(''region'', \<lparr>cshape = [1], points = [Str ''Congo''],
                                           bounds = None, cdims = []\<rparr>)]\<rparr>))"
    unfolding x e .
  from w1 w2 w3 w4 w5 w6 w7 show ?thesis by blast
qed

section \<open>Named regions\<close>

lemma take_axis_one_axis: "take_axis [n] 0 ks xs = map ((!) xs) ks"
  by (rule nth_equalityI) (simp_all add: take_axis_def Let_def)

lemma map_nth_filter:
  "map ((!) xs) (filter (\<lambda>i. f (xs ! i)) [0 ..< length xs]) = filter f xs"
proof (induction xs rule: rev_induct)
  case Nil
  then show ?case by simp
next
  case (snoc x xs)
  have "filter (\<lambda>i. f ((xs @ [x]) ! i)) [0 ..< length xs] = filter (\<lambda>i. f (xs ! i)) [0 ..< length xs]"
    by (rule filter_cong) (auto simp add: nth_append)
  moreover have "map ((!) (xs @ [x])) (filter (\<lambda>i. f (xs ! i)) [0 ..< length xs]) =
                 map ((!) xs) (filter (\<lambda>i. f (xs ! i)) [0 ..< length xs])"
    by (rule map_cong) (auto simp add: nth_append)
  ultimately show ?case using snoc.IH by simp
qed

lemma map_of_map_coords:
  "map_of (map (\<lambda>(name, x). (name, f x)) al) name = map_option f (map_of al name)"
  by (induction al) auto

lemma in_regions_requested:
  assumes "regions \<noteq> Regions_other"
  shows "in_regions regions p \<longleftrightarrow> p \<in> Str ` requested regions"
  using assms by (cases regions) auto

lemma index_coord_points:
  assumes "cdims c = [d]" and "length (cshape c) = 1"
  shows "points (index_coord d ks c) = map ((!) (points c)) ks"
proof -
  obtain n where n: "cshape c = [n]"
    using assms(2) by (cases "cshape c") auto
  show ?thesis
    using assms(1) n by (simp add: index_coord_def take_axis_one_axis)
qed

lemma points_squeeze_coord: "points (squeeze_coord d c) = points c"
  by (simp add: squeeze_coord_def Let_def split: option.splits)

lemma points_squeeze_cube:
  "map_option points (map_of (coords (squeeze_cube d x)) name) =
   map_option points (map_of (coords x) name)"
  by (cases "map_of (coords x) name")
     (simp_all add: squeeze_cube_def map_of_map_coords points_squeeze_coord)

lemma remove_nth_update: "remove_nth d (xs[d := x]) = remove_nth d xs"
  by (simp add: remove_nth_def)

lemma cube_extract_kept:
  assumes c: "map_of (coords cube) name = Some c" and d: "cdims c = [d]"
    and one: "length (cshape c) = 1"
    and some: "filter f (points c) \<noteq> []"
    and ks: "ks = filter (\<lambda>i. f (points c ! i)) [0 ..< length (points c)]"
  shows "\<exists>c'. cube_extract cube name f = Inr (Fresh c') \<and>
           map_option points (map_of (coords c') name) = Some (filter f (points c)) \<and>
           elements (data c') = take_axis (shape (data cube)) d ks (elements (data cube)) \<and>
           shape (data c') = (if length ks = 1 then remove_nth d (shape (data cube))
                              else (shape (data cube))[d := length ks]) \<and>
           mask (data c') =
             (case mask (data cube) of
                nomask \<Rightarrow> nomask
              | MaskArr s b \<Rightarrow>
                  MaskArr (if length ks = 1 then remove_nth d s else s[d := length ks])
                    (take_axis s d ks b))"
proof -
  let ?sub = "index_cube d ks cube"
  have pts: "map ((!) (points c)) ks = filter f (points c)"
    unfolding ks by (rule map_nth_filter)
  then have ne: "ks \<noteq> []"
    using some by auto
  have psub: "map_option points (map_of (coords ?sub) name) = Some (filter f (points c))"
    using c pts index_coord_points [OF d one, of ks]
    by (simp add: index_cube_def map_of_map_coords)
  then have psq: "map_option points (map_of (coords (squeeze_cube d ?sub)) name) =
                    Some (filter f (points c))"
    by (simp only: points_squeeze_cube)
  have esub: "elements (data ?sub) = take_axis (shape (data cube)) d ks (elements (data cube))"
    by (simp add: index_cube_def index_array_def)
  then have esq: "elements (data (squeeze_cube d ?sub)) =
                    take_axis (shape (data cube)) d ks (elements (data cube))"
    by (simp add: squeeze_cube_def squeeze_array_def)
  have ssub: "shape (data ?sub) = (shape (data cube))[d := length ks]"
    by (simp add: index_cube_def index_array_def)
  have ssq: "shape (data (squeeze_cube d ?sub)) = remove_nth d (shape (data cube))"
    by (simp add: squeeze_cube_def squeeze_array_def index_cube_def index_array_def
          remove_nth_update)
  have msub: "mask (data ?sub) =
                (case mask (data cube) of
                   nomask \<Rightarrow> nomask
                 | MaskArr s b \<Rightarrow> MaskArr (s[d := length ks]) (take_axis s d ks b))"
    by (simp add: index_cube_def index_array_def)
  have msq: "mask (data (squeeze_cube d ?sub)) =
                (case mask (data cube) of
                   nomask \<Rightarrow> nomask
                 | MaskArr s b \<Rightarrow> MaskArr (remove_nth d s) (take_axis s d ks b))"
    by (simp add: squeeze_cube_def squeeze_array_def index_cube_def index_array_def
          remove_nth_update split: mask.splits)
  show ?thesis
  proof (cases "length ks = 1")
    case True
    then have "cube_extract cube name f = Inr (Fresh (squeeze_cube d ?sub))"
      using c d ne ks by (simp add: cube_extract_def Let_def)
    with psq esq ssq msq True show ?thesis by (simp split: mask.splits)
  next
    case False
    then have "cube_extract cube name f = Inr (Fresh ?sub)"
      using c d ne ks by (simp add: cube_extract_def Let_def)
    with psub esub ssub msub False show ?thesis by (simp split: mask.splits)
  qed
qed

lemma cube_extract_scalar:
  assumes "map_of (coords cube) name = Some c" and "cdims c = []"
    and "list_all f (points c)" and "shape (data cube) \<noteq> []"
  shows "cube_extract cube name f = Inr (Fresh cube)"
  using assms by (simp add: cube_extract_def)

lemma cube_extract_none:
  assumes "map_of (coords cube) name = Some c" and "cdims c = [d]"
    and "filter f (points c) = []"
  shows "cube_extract cube name f = Inr NoneValue"
proof -
  have "map ((!) (points c)) (filter (\<lambda>i. f (points c ! i)) [0 ..< length (points c)]) = []"
    using assms(3) by (simp only: map_nth_filter)
  then have "filter (\<lambda>i. f (points c ! i)) [0 ..< length (points c)] = []"
    by simp
  then show ?thesis
    using assms(1,2) by (simp add: cube_extract_def Let_def)
qed

lemma cube_extract_no_region_error:
  "cube_extract cube name f \<noteq> Inl (ValueError_regions e1 e2)"
  by (simp add: cube_extract_def Let_def split: option.splits list.splits)

text \<open>
  Claim C8, as stated, fails for the empty request: no label is absent, so nothing is
  raised, no position matches, and iris's extraction returns \<open>None\<close>, not a field.
\<close>

theorem C8_counterexample:
  "extract_named_regions example_iris region_field (Regions_list []) =
     (region_field, Inr NoneValue)"
  by code_simp

text \<open>
  Claim C8, amended. On a cube with a \<open>region\<close> coordinate and a request that is a
  string, a list, a tuple or a set: the ValueError for regions is raised exactly when a
  requested label is not among the points of the coordinate, and it carries the set of
  those labels and the set of the points. Otherwise, for a request with at least one label:
  with the coordinate along one data dimension, a new cube is returned whose \<open>region\<close>
  points are the requested ones among the old points, in the old order, and whose data and
  mask are the old ones at those positions of that dimension (the dimension is dropped when
  one position is left); with a scalar coordinate, a new cube with the whole content is
  returned. For the empty request \<open>None\<close> is returned.
\<close>

theorem C8_named_regions:
  assumes "cube_coord cube ''region'' = Inr c" and "regions \<noteq> Regions_other"
    and "ks = filter (\<lambda>i. points c ! i \<in> Str ` requested regions) [0 ..< length (points c)]"
  shows "((\<exists>invalid available. snd (extract_named_regions L cube regions) =
                                Inl (ValueError_regions invalid available)) \<longleftrightarrow>
            (\<exists>r\<in>requested regions. Str r \<notin> set (points c))) \<and>
         ((\<exists>r\<in>requested regions. Str r \<notin> set (points c)) \<longrightarrow>
            extract_named_regions L cube regions =
              (cube, Inl (ValueError_regions {r \<in> requested regions. Str r \<notin> set (points c)}
                            (set (points c))))) \<and>
         ((\<forall>r\<in>requested regions. Str r \<in> set (points c)) \<and> requested regions \<noteq> {} \<and>
          cdims c = [d] \<and> length (cshape c) = 1 \<longrightarrow>
            (\<exists>c'. extract_named_regions L cube regions = (cube, Inr (Fresh c')) \<and>
                   map_option points (map_of (coords c') ''region'') =
                     Some (filter (\<lambda>p. p \<in> Str ` requested regions) (points c)) \<and>
                   elements (data c') = take_axis (shape (data cube)) d ks (elements (data cube)) \<and>
                   shape (data c') = (if length ks = 1 then remove_nth d (shape (data cube))
                                      else (shape (data cube))[d := length ks]) \<and>
                   mask (data c') =
                     (case mask (data cube) of
                        nomask \<Rightarrow> nomask
                      | MaskArr s b \<Rightarrow>
                          MaskArr (if length ks = 1 then remove_nth d s else s[d := length ks])
                            (take_axis s d ks b)))) \<and>
         ((\<forall>r\<in>requested regions. Str r \<in> set (points c)) \<and> requested regions \<noteq> {} \<and>
          cdims c = [] \<and> length (points c) = 1 \<and> shape (data cube) \<noteq> [] \<longrightarrow>
            extract_named_regions L cube regions = (cube, Inr (Fresh cube))) \<and>
         (requested regions = {} \<and> cdims c = [d] \<longrightarrow>
            extract_named_regions L cube regions = (cube, Inr NoneValue))"
proof -
  have c: "map_of (coords cube) ''region'' = Some c"
    using assms(1) by (simp add: cube_coord_def split: option.splits)
  have f: "in_regions regions = (\<lambda>p. p \<in> Str ` requested regions)"
    using in_regions_requested [OF assms(2)] by (intro ext) simp
  have raises: "(\<exists>r\<in>requested regions. Str r \<notin> set (points c)) \<longrightarrow>
            extract_named_regions L cube regions =
              (cube, Inl (ValueError_regions {r \<in> requested regions. Str r \<notin> set (points c)}
                            (set (points c))))"
    using extract_named_regions_invalid [OF assms(1,2)] by blast
  have only: "(\<exists>invalid available. snd (extract_named_regions L cube regions) =
                                Inl (ValueError_regions invalid available)) \<longrightarrow>
            (\<exists>r\<in>requested regions. Str r \<notin> set (points c))"
  proof (rule impI, rule ccontr)
    assume e: "\<exists>invalid available. snd (extract_named_regions L cube regions) =
                                Inl (ValueError_regions invalid available)"
    assume "\<not> (\<exists>r\<in>requested regions. Str r \<notin> set (points c))"
    then have "\<forall>r\<in>requested regions. Str r \<in> set (points c)" by blast
    then have "snd (extract_named_regions L cube regions) =
                 cube_extract cube ''region'' (in_regions regions)"
      using extract_named_regions_valid [OF assms(1,2)] by simp
    with e show False
      using cube_extract_no_region_error by metis
  qed
  have subset: "(\<forall>r\<in>requested regions. Str r \<in> set (points c)) \<and> requested regions \<noteq> {} \<and>
          cdims c = [d] \<and> length (cshape c) = 1 \<longrightarrow>
            (\<exists>c'. extract_named_regions L cube regions = (cube, Inr (Fresh c')) \<and>
                   map_option points (map_of (coords c') ''region'') =
                     Some (filter (\<lambda>p. p \<in> Str ` requested regions) (points c)) \<and>
                   elements (data c') = take_axis (shape (data cube)) d ks (elements (data cube)) \<and>
                   shape (data c') = (if length ks = 1 then remove_nth d (shape (data cube))
                                      else (shape (data cube))[d := length ks]) \<and>
                   mask (data c') =
                     (case mask (data cube) of
                        nomask \<Rightarrow> nomask
                      | MaskArr s b \<Rightarrow>
                          MaskArr (if length ks = 1 then remove_nth d s else s[d := length ks])
                            (take_axis s d ks b)))"
  proof (intro impI, elim conjE)
    assume valid: "\<forall>r\<in>requested regions. Str r \<in> set (points c)"
      and nonempty: "requested regions \<noteq> {}"
      and d: "cdims c = [d]" and one: "length (cshape c) = 1"
    obtain r where "r \<in> requested regions" using nonempty by blast
    then have "Str r \<in> set (points c)" "Str r \<in> Str ` requested regions"
      using valid by auto
    then have some: "filter (\<lambda>p. p \<in> Str ` requested regions) (points c) \<noteq> []"
      by (auto simp add: filter_empty_conv)
    from cube_extract_kept [OF c d one some assms(3)]
    obtain c' where c': "cube_extract cube ''region'' (\<lambda>p. p \<in> Str ` requested regions) =
                           Inr (Fresh c')"
      "map_option points (map_of (coords c') ''region'') =
         Some (filter (\<lambda>p. p \<in> Str ` requested regions) (points c))"
      "elements (data c') = take_axis (shape (data cube)) d ks (elements (data cube))"
      "shape (data c') = (if length ks = 1 then remove_nth d (shape (data cube))
                          else (shape (data cube))[d := length ks])"
      "mask (data c') =
         (case mask (data cube) of
            nomask \<Rightarrow> nomask
          | MaskArr s b \<Rightarrow>
              MaskArr (if length ks = 1 then remove_nth d s else s[d := length ks])
                (take_axis s d ks b))"
      by blast
    have "extract_named_regions L cube regions = (cube, Inr (Fresh c'))"
      using extract_named_regions_valid [OF assms(1,2) valid] c'(1) f by simp
    with c'(2,3,4,5) show "\<exists>c'. extract_named_regions L cube regions = (cube, Inr (Fresh c')) \<and>
                   map_option points (map_of (coords c') ''region'') =
                     Some (filter (\<lambda>p. p \<in> Str ` requested regions) (points c)) \<and>
                   elements (data c') = take_axis (shape (data cube)) d ks (elements (data cube)) \<and>
                   shape (data c') = (if length ks = 1 then remove_nth d (shape (data cube))
                                      else (shape (data cube))[d := length ks]) \<and>
                   mask (data c') =
                     (case mask (data cube) of
                        nomask \<Rightarrow> nomask
                      | MaskArr s b \<Rightarrow>
                          MaskArr (if length ks = 1 then remove_nth d s else s[d := length ks])
                            (take_axis s d ks b))"
      by blast
  qed
  have scalar: "(\<forall>r\<in>requested regions. Str r \<in> set (points c)) \<and> requested regions \<noteq> {} \<and>
          cdims c = [] \<and> length (points c) = 1 \<and> shape (data cube) \<noteq> [] \<longrightarrow>
            extract_named_regions L cube regions = (cube, Inr (Fresh cube))"
  proof (intro impI, elim conjE)
    assume valid: "\<forall>r\<in>requested regions. Str r \<in> set (points c)"
      and nonempty: "requested regions \<noteq> {}"
      and d: "cdims c = []" and one: "length (points c) = 1"
      and s: "shape (data cube) \<noteq> []"
    obtain p where p: "points c = [p]"
      using one by (cases "points c") auto
    obtain r where "r \<in> requested regions" using nonempty by blast
    then have "Str r = p" "Str r \<in> Str ` requested regions"
      using valid p by auto
    then have "list_all (in_regions regions) (points c)"
      unfolding f p by simp
    then show "extract_named_regions L cube regions = (cube, Inr (Fresh cube))"
      using extract_named_regions_valid [OF assms(1,2) valid] cube_extract_scalar [OF c d _ s]
      by simp
  qed
  have conversely: "(\<exists>r\<in>requested regions. Str r \<notin> set (points c)) \<longrightarrow>
              (\<exists>invalid available. snd (extract_named_regions L cube regions) =
                                Inl (ValueError_regions invalid available))"
    using raises by auto
  have none: "requested regions = {} \<and> cdims c = [d] \<longrightarrow>
            extract_named_regions L cube regions = (cube, Inr NoneValue)"
  proof (intro impI, elim conjE)
    assume empty: "requested regions = {}" and d: "cdims c = [d]"
    have valid: "\<forall>r\<in>requested regions. Str r \<in> set (points c)"
      using empty by simp
    have "filter (in_regions regions) (points c) = []"
      unfolding f using empty by simp
    then show "extract_named_regions L cube regions = (cube, Inr NoneValue)"
      using extract_named_regions_valid [OF assms(1,2) valid] cube_extract_none [OF c d]
      by simp
  qed
  from only conversely raises subset scalar none show ?thesis by blast
qed

theorem C8_witness:
  "(\<exists>c'. extract_named_regions example_iris region_field (Regions_set {''Sahel'', ''Amazon''}) =
           (region_field, Inr (Fresh c')) \<and>
         map_option points (map_of (coords c') ''region'') =
           Some [Str ''Amazon'', Str ''Sahel''] \<and>
         elements (data c') = [1, 3, 4, 6] \<and> shape (data c') = [2, 2] \<and>
         mask (data c') = nomask) \<and>
   extract_named_regions example_iris region_field (Regions_str ''Sahara'') =
     (region_field,
      Inl (ValueError_regions {''Sahara''} {Str ''Amazon'', Str ''Congo'', Str ''Sahel''}))"
proof -
  let ?c = "\<lparr>cshape = [3], points = [Str ''Amazon'', Str ''Congo'', Str ''Sahel''],
             bounds = None, cdims = [1]\<rparr>"
  let ?two = "Regions_set {''Sahel'', ''Amazon''}"
  have h1: "cube_coord region_field ''region'' = Inr ?c" by code_simp
  have h2: "?two \<noteq> Regions_other" by simp
  have h3: "Regions_str ''Sahara'' \<noteq> Regions_other" by simp
  have k: "[0, 2] = filter (\<lambda>i. points ?c ! i \<in> Str ` requested ?two) [0 ..< length (points ?c)]"
    by (simp add: upt_rec)
  have k': "[] = filter (\<lambda>i. points ?c ! i \<in> Str ` requested (Regions_str ''Sahara''))
                   [0 ..< length (points ?c)]"
    by (simp add: upt_rec)
  have p: "(\<forall>r\<in>requested ?two. Str r \<in> set (points ?c)) \<and> requested ?two \<noteq> {} \<and>
           cdims ?c = [1] \<and> length (cshape ?c) = 1"
    by simp
  have f1: "filter (\<lambda>p. p \<in> Str ` requested ?two) (points ?c) = [Str ''Amazon'', Str ''Sahel'']"
    by simp
  have f2: "take_axis (shape (data region_field)) 1 [0, 2] (elements (data region_field)) =
              [1, 3, 4, 6]"
    by code_simp
  have f3: "(if length [0, 2 :: nat] = 1 then remove_nth 1 (shape (data region_field))
             else (shape (data region_field))[1 := length [0, 2 :: nat]]) = [2, 2]"
    by code_simp
  have f4: "(case mask (data region_field) of
               nomask \<Rightarrow> nomask
             | MaskArr s b \<Rightarrow>
                 MaskArr (if length [0, 2 :: nat] = 1 then remove_nth 1 s
                          else s[1 := length [0, 2 :: nat]])
                   (take_axis s 1 [0, 2] b)) = nomask"
    by code_simp
  have q: "\<exists>r\<in>requested (Regions_str ''Sahara''). Str r \<notin> set (points ?c)" by simp
  have s: "{r \<in> requested (Regions_str ''Sahara'').
             Str r \<notin> {Str ''Amazon'', Str ''Congo'', Str ''Sahel''}} = {''Sahara''}"
    by auto
  have a: "set (points ?c) = {Str ''Amazon'', Str ''Congo'', Str ''Sahel''}" by simp
  from C8_named_regions [OF h1 h2 k, of example_iris 1] p
  have "\<exists>c'. extract_named_regions example_iris region_field ?two = (region_field, Inr (Fresh c')) \<and>
          map_option points (map_of (coords c') ''region'') =
            Some (filter (\<lambda>p. p \<in> Str ` requested ?two) (points ?c)) \<and>
          elements (data c') =
            take_axis (shape (data region_field)) 1 [0, 2] (elements (data region_field)) \<and>
          shape (data c') =
            (if length [0, 2 :: nat] = 1 then remove_nth 1 (shape (data region_field))
             else (shape (data region_field))[1 := length [0, 2 :: nat]]) \<and>
          mask (data c') =
            (case mask (data region_field) of
               nomask \<Rightarrow> nomask
             | MaskArr s b \<Rightarrow>
                 MaskArr (if length [0, 2 :: nat] = 1 then remove_nth 1 s
                          else s[1 := length [0, 2 :: nat]])
                   (take_axis s 1 [0, 2] b))"
    by blast
  then have first: "\<exists>c'. extract_named_regions example_iris region_field ?two =
                            (region_field, Inr (Fresh c')) \<and>
          map_option points (map_of (coords c') ''region'') = Some [Str ''Amazon'', Str ''Sahel''] \<and>
          elements (data c') = [1, 3, 4, 6] \<and> shape (data c') = [2, 2] \<and>
          mask (data c') = nomask"
    unfolding f1 f2 f3 f4 .
  from C8_named_regions [OF h1 h3 k', of example_iris 1] q
  have "extract_named_regions example_iris region_field (Regions_str ''Sahara'') =
          (region_field,
           Inl (ValueError_regions {r \<in> requested (Regions_str ''Sahara''). Str r \<notin> set (points ?c)}
                  (set (points ?c))))"
    by blast
  then have second: "extract_named_regions example_iris region_field (Regions_str ''Sahara'') =
     (region_field,
      Inl (ValueError_regions {''Sahara''} {Str ''Amazon'', Str ''Congo'', Str ''Sahel''}))"
    unfolding a s .
  from first second show ?thesis by blast
qed

end
